theory Spec2Isabelle
  imports Complex_Main "HOL-Library.Multiset"
begin

section \<open>Conventions of the embedding\<close>

text \<open>
  The program is the PyTorch module file \<^verbatim>\<open>models/PCP_MAE.py\<close>. Tensors are nested
  lists, outermost dimension first. A floating-point number is modelled by the real
  number it denotes, and an operation whose rounding a property depends on is followed
  by the rounding to the format (\<open>float64\<close> for Python floats, \<open>float32\<close> for tensor
  entries); the one IEEE special value the properties depend on, the quotient
  \<^verbatim>\<open>0/0\<close> in \<^verbatim>\<open>proj2img\<close>, is modelled explicitly. A Python exception is a value
  of type \<open>error\<close>, returned as \<open>Inl\<close>. Random draws (\<^verbatim>\<open>random.randint\<close>,
  \<^verbatim>\<open>np.random.shuffle\<close>, the factors of \<^verbatim>\<open>DropPath\<close>) and library functions whose
  result the source does not determine are arguments of the model.
\<close>

datatype error = ValueError | IndexError | AssertionError | NotImplementedError | RuntimeError

type_synonym point = "real \<times> real \<times> real"

text \<open>Python's \<^verbatim>\<open>int(x)\<close> on a float truncates towards zero.\<close>

definition py_int :: "real \<Rightarrow> int" where
  "py_int x = (if 0 \<le> x then \<lfloor>x\<rfloor> else \<lceil>x\<rceil>)"

text \<open>The slice \<^verbatim>\<open>xs[:k]\<close>: a negative \<open>k\<close> counts from the end.\<close>

definition py_take :: "int \<Rightarrow> 'a list \<Rightarrow> 'a list" where
  "py_take k xs = (if 0 \<le> k then take (nat k) xs else take (length xs - nat (- k)) xs)"

text \<open>The number of true entries of a mask row.\<close>

definition num_true :: "bool list \<Rightarrow> nat" where
  "num_true row = length (filter (\<lambda>b. b) row)"

text \<open>Size of the second dimension of a tensor given as a list of rows.\<close>

definition dim1 :: "'a list list \<Rightarrow> nat" where
  "dim1 t = (case t of [] \<Rightarrow> 0 | r # _ \<Rightarrow> length r)"

section \<open>IEEE 754 rounding\<close>

text \<open>
  Rounding of a real number to the nearest integer, ties to the even one.
\<close>

definition round_even :: "real \<Rightarrow> int" where
  "round_even x = (let f = \<lfloor>x\<rfloor>; r = x - of_int f in
     if r < 1 / 2 then f else if 1 / 2 < r then f + 1 else if even f then f else f + 1)"

text \<open>
  A binary format with \<open>p\<close> significant bits holds the numbers \<open>k * 2 ^ e\<close> with
  \<open>\<bar>k\<bar> < 2 ^ p\<close>. \<open>scale_down p n a\<close> counts the halvings that bring \<open>a\<close> below
  \<open>2 ^ p\<close>, and \<open>scale_up p n a\<close> the doublings that bring it to \<open>2 ^ (p - 1)\<close> at
  least, \<open>n\<close> at most: the bound is the exponent of the smallest subnormal number.
\<close>

fun scale_down :: "nat \<Rightarrow> nat \<Rightarrow> real \<Rightarrow> nat" where
  "scale_down p 0 a = 0"
| "scale_down p (Suc n) a = (if a < 2 ^ p then 0 else Suc (scale_down p n (a / 2)))"

fun scale_up :: "nat \<Rightarrow> nat \<Rightarrow> real \<Rightarrow> nat" where
  "scale_up p 0 a = 0"
| "scale_up p (Suc n) a = (if 2 ^ (p - 1) \<le> a then 0 else Suc (scale_up p n (2 * a)))"

text \<open>
  \<open>fround p m x\<close>: the number of the format with \<open>p\<close> significant bits and smallest
  subnormal \<open>2 ^ (- m)\<close> nearest to \<open>x\<close>, ties to even. Overflow to an infinity is not
  modelled: the properties below keep the operands within \<open>in_range\<close>.
\<close>

definition fround :: "nat \<Rightarrow> nat \<Rightarrow> real \<Rightarrow> real" where
  "fround p m x =
     (let a = \<bar>x\<bar>; d = scale_down p 2048 a; u = scale_up p m a
      in sgn x * (if 0 < d then of_int (round_even (a / 2 ^ d)) * 2 ^ d
                  else of_int (round_even (a * 2 ^ u)) / 2 ^ u))"

text \<open>Python's \<^verbatim>\<open>float\<close> is binary64; the tensors of the model are binary32.\<close>

definition float64 :: "real \<Rightarrow> real" where
  "float64 = fround 53 1074"

definition float32 :: "real \<Rightarrow> real" where
  "float32 = fround 24 149"

text \<open>Subtraction and addition of two points of a \<^verbatim>\<open>float32\<close> tensor.\<close>

definition psub :: "point \<Rightarrow> point \<Rightarrow> point" where
  "psub p c = (case p of (px, py, pz) \<Rightarrow> case c of (cx, cy, cz) \<Rightarrow>
     (float32 (px - cx), float32 (py - cy), float32 (pz - cz)))"

definition padd :: "point \<Rightarrow> point \<Rightarrow> point" where
  "padd p c = (case p of (px, py, pz) \<Rightarrow> case c of (cx, cy, cz) \<Rightarrow>
     (float32 (px + cx), float32 (py + cy), float32 (pz + cz)))"

text \<open>
  Points with coordinates of magnitude \<open>2 ^ k\<close> at most. The largest \<^verbatim>\<open>float32\<close> number
  is just below \<open>2 ^ 128\<close>: for \<open>k = 126\<close> the difference of two such points does not
  overflow, and for \<open>k = 62\<close> neither does the sum of the squares of its coordinates.
\<close>

definition in_range :: "nat \<Rightarrow> point \<Rightarrow> bool" where
  "in_range k p = (case p of (x, y, z) \<Rightarrow> \<bar>x\<bar> \<le> 2 ^ k \<and> \<bar>y\<bar> \<le> 2 ^ k \<and> \<bar>z\<bar> \<le> 2 ^ k)"

section \<open>Masking policies of \<^verbatim>\<open>MaskTransformer\<close>\<close>

subsection \<open>\<^verbatim>\<open>_mask_center_rand\<close>\<close>

text \<open>
  \<^verbatim>\<open>np.random.shuffle(mask)\<close> permutes the row in place. The permutation drawn for a
  row is an argument: \<open>shuffle perm xs\<close> puts \<open>xs ! (perm ! j)\<close> at position \<open>j\<close>.
\<close>

definition shuffle :: "nat list \<Rightarrow> 'a list \<Rightarrow> 'a list" where
  "shuffle perm xs = map (\<lambda>j. xs ! j) perm"

text \<open>
  \<open>perms\<close> holds the permutation drawn in each of the \<open>B\<close> iterations.
  \<^verbatim>\<open>np.zeros\<close> and \<^verbatim>\<open>np.ones\<close> raise \<^verbatim>\<open>ValueError\<close> on a negative length.
  \<^verbatim>\<open>self.mask_ratio * G\<close> is a product of Python floats: the exact product rounded to
  binary64 (the integer \<open>G\<close> converts exactly below \<open>2 ^ 53\<close>).
\<close>

definition mask_center_rand ::
  "real \<Rightarrow> nat list list \<Rightarrow> point list list \<Rightarrow> bool \<Rightarrow> error + bool list list" where
  "mask_center_rand mask_ratio perms center noaug =
     (let B = length center; G = dim1 center in
      if noaug \<or> mask_ratio = 0 then Inr (replicate B (replicate G False))
      else
        let num_mask = py_int (float64 (mask_ratio * real G)) in
        if B = 0 then Inr []
        else if int G - num_mask < 0 \<or> num_mask < 0 then Inl ValueError
        else Inr (map (\<lambda>i. map (\<lambda>v. v \<noteq> (0::real))
                    (shuffle (perms ! i)
                       (replicate (nat (int G - num_mask)) 0 @ replicate (nat num_mask) 1)))
               [0..<B]))"

subsection \<open>\<^verbatim>\<open>_mask_center_block\<close>\<close>

text \<open>
  The row of distances of the anchor \<open>index\<close> to the centers of a sample:
  \<^verbatim>\<open>torch.norm(points[:, index].reshape(1, 1, 3) - points, p=2, dim=-1)\<close>. The
  subtraction is that of \<^verbatim>\<open>float32\<close> tensors. How \<^verbatim>\<open>torch.norm\<close> accumulates and
  rounds is not determined by this file: it is the argument \<open>torch_norm\<close>.
\<close>

definition distance_matrix :: "(point \<Rightarrow> real) \<Rightarrow> point list \<Rightarrow> nat \<Rightarrow> real list" where
  "distance_matrix torch_norm points index = map (\<lambda>q. torch_norm (psub (points ! index) q)) points"

text \<open>
  \<^verbatim>\<open>torch.argsort(d, dim=-1, descending=False)\<close> is called without \<^verbatim>\<open>stable=True\<close>:
  it returns the indices of \<open>d\<close> in an ascending order of their entries, and which
  one when entries are equal is not determined. It is the argument \<open>argsort\<close> of the
  model; \<open>is_argsort\<close> is what every result satisfies.
\<close>

definition is_argsort :: "(real list \<Rightarrow> nat list) \<Rightarrow> bool" where
  "is_argsort argsort =
     (\<forall>d. mset (argsort d) = mset [0..<length d] \<and> sorted (map (\<lambda>i. d ! i) (argsort d)))"

text \<open>
  Two functions to run the model with: the sort that keeps equal entries in index
  order, and the Euclidean norm without rounding.
\<close>

definition argsort_stable :: "real list \<Rightarrow> nat list" where
  "argsort_stable d = sort_key (\<lambda>i. d ! i) [0..<length d]"

definition norm_exact :: "point \<Rightarrow> real" where
  "norm_exact v = (case v of (x, y, z) \<Rightarrow> sqrt (x\<^sup>2 + y\<^sup>2 + z\<^sup>2))"

text \<open>The indexed assignment \<^verbatim>\<open>mask[sel] = 1\<close> on a row.\<close>

definition set_mask :: "nat list \<Rightarrow> bool list \<Rightarrow> bool list" where
  "set_mask sel row = fold (\<lambda>i m. m[i := True]) sel row"

text \<open>One iteration of the loop over \<^verbatim>\<open>center\<close>; \<open>index\<close> is the anchor drawn.\<close>

definition mask_block_row ::
  "(point \<Rightarrow> real) \<Rightarrow> (real list \<Rightarrow> nat list) \<Rightarrow> real \<Rightarrow> nat \<Rightarrow> point list \<Rightarrow> bool list" where
  "mask_block_row torch_norm argsort mask_ratio index points =
     (let idx = argsort (distance_matrix torch_norm points index);
          mask_num = py_int (float64 (mask_ratio * real (length idx)))
      in set_mask (py_take mask_num idx) (replicate (length idx) False))"

text \<open>
  \<open>anchors\<close> holds the value \<^verbatim>\<open>random.randint(0, G - 1)\<close> returned in each iteration;
  with \<open>G = 0\<close> the range is empty and \<^verbatim>\<open>randint\<close> raises \<^verbatim>\<open>ValueError\<close>.
  \<^verbatim>\<open>torch.stack\<close> of an empty list raises \<^verbatim>\<open>RuntimeError\<close>.
\<close>

definition mask_center_block ::
  "(point \<Rightarrow> real) \<Rightarrow> (real list \<Rightarrow> nat list) \<Rightarrow> real \<Rightarrow> nat list \<Rightarrow> point list list \<Rightarrow> bool
     \<Rightarrow> error + bool list list" where
  "mask_center_block torch_norm argsort mask_ratio anchors center noaug =
     (if noaug \<or> mask_ratio = 0 then Inr (replicate (length center) (replicate (dim1 center) False))
      else if center = [] then Inl RuntimeError
      else if dim1 center = 0 then Inl ValueError
      else Inr (map (\<lambda>i. mask_block_row torch_norm argsort mask_ratio (anchors ! i) (center ! i))
                  [0..<length center]))"

section \<open>\<^verbatim>\<open>Group\<close>: farthest-point sampling and k-nearest-neighbour grouping\<close>

text \<open>
  A point cloud batch \<open>B \<times> N \<times> 3\<close> is a list of \<open>B\<close> lists of points; a tensor of
  neighbourhoods \<open>B \<times> G \<times> M \<times> 3\<close> is a list of lists of lists of points.
\<close>

text \<open>Size of the third dimension of a tensor given as nested lists.\<close>

definition dim2 :: "'a list list list \<Rightarrow> nat" where
  "dim2 t = dim1 (concat t)"

text \<open>
  \<open>has_shape2 B G t\<close>: \<open>t\<close> is a \<open>B \<times> G\<close> tensor; \<open>has_shape3 B G M t\<close>: a
  \<open>B \<times> G \<times> M\<close> tensor.
\<close>

definition has_shape2 :: "nat \<Rightarrow> nat \<Rightarrow> 'a list list \<Rightarrow> bool" where
  "has_shape2 B G t = (length t = B \<and> list_all (\<lambda>r. length r = G) t)"

definition has_shape3 :: "nat \<Rightarrow> nat \<Rightarrow> nat \<Rightarrow> 'a list list list \<Rightarrow> bool" where
  "has_shape3 B G M t = (length t = B \<and> list_all (has_shape2 G M) t)"

text \<open>
  Broadcasting of two dimensions: equal sizes, or one of them 1. \<open>bnth xs i\<close> reads a
  list along a dimension it is broadcast over.
\<close>

definition bdim :: "nat \<Rightarrow> nat \<Rightarrow> nat option" where
  "bdim a b = (if a = b then Some a else if a = 1 then Some b else if b = 1 then Some a else None)"

definition bnth :: "'a list \<Rightarrow> nat \<Rightarrow> 'a" where
  "bnth xs i = (if length xs = 1 then xs ! 0 else xs ! i)"

text \<open>
  \<^verbatim>\<open>Group.forward(xyz)\<close>. The helpers \<^verbatim>\<open>misc.fps\<close> and \<^verbatim>\<open>knn_point\<close> live in
  \<^verbatim>\<open>utils\<close>, outside this file; they are the arguments \<open>fps\<close> and \<open>knn_point\<close>.
  Indices are natural numbers (\<^verbatim>\<open>knn_point\<close> returns the indices of a top-k).

  \<^verbatim>\<open>idx + idx_base\<close> broadcasts the batch dimension of \<open>idx\<close> against
  \<open>batch_size\<close>. The gather \<^verbatim>\<open>xyz.view(B * N, -1)[idx.view(-1), :]\<close> reads the
  flattened cloud; the \<^verbatim>\<open>view\<close> of a cloud without points raises \<^verbatim>\<open>RuntimeError\<close> (the
  size \<open>-1\<close> is ambiguous), and an index past the end raises \<^verbatim>\<open>IndexError\<close>. The \<^verbatim>\<open>view\<close> to
  \<open>B \<times> G \<times> M \<times> 3\<close> raises \<^verbatim>\<open>RuntimeError\<close> unless the gather has \<open>B * G * M\<close>
  rows. The subtraction \<^verbatim>\<open>neighborhood - center.unsqueeze(2)\<close> is a subtraction of
  \<^verbatim>\<open>float32\<close> tensors and broadcasts \<open>center\<close> over the batch and the groups.
\<close>

definition Group_forward ::
  "nat \<Rightarrow> nat \<Rightarrow> (point list list \<Rightarrow> nat \<Rightarrow> point list list)
     \<Rightarrow> (nat \<Rightarrow> point list list \<Rightarrow> point list list \<Rightarrow> nat list list list)
     \<Rightarrow> point list list \<Rightarrow> error + (point list list list \<times> point list list)" where
  "Group_forward num_group group_size fps knn_point xyz =
     (let batch_size = length xyz; num_points = dim1 xyz;
          center = fps xyz num_group;
          idx = knn_point group_size xyz center
      in if dim1 idx \<noteq> num_group then Inl AssertionError
         else if dim2 idx \<noteq> group_size then Inl AssertionError
         else
           case bdim (length idx) batch_size of
             None \<Rightarrow> Inl RuntimeError
           | Some Bi \<Rightarrow>
               let idx' = concat (concat
                            (map (\<lambda>b. map (map (\<lambda>i. i + b * num_points)) (bnth idx b)) [0..<Bi]));
                   flat = concat xyz
               in if flat = [] then Inl RuntimeError
                  else if list_ex (\<lambda>i. length flat \<le> i) idx' then Inl IndexError
                  else if length idx' \<noteq> batch_size * num_group * group_size then Inl RuntimeError
                  else
                    let neighborhood =
                          map (\<lambda>b. map (\<lambda>g. map (\<lambda>m. flat ! (idx' ! ((b * num_group + g) * group_size + m)))
                                               [0..<group_size])
                                       [0..<num_group])
                            [0..<batch_size]
                    in case (bdim batch_size (length center), bdim num_group (dim1 center)) of
                         (Some Bo, Some Go) \<Rightarrow>
                           Inr (map (\<lambda>b. map (\<lambda>g. map (\<lambda>p. psub p (bnth (bnth center b) g))
                                                     (bnth (bnth neighborhood b) g))
                                              [0..<Go])
                                  [0..<Bo],
                                center)
                       | _ \<Rightarrow> Inl RuntimeError)"

section \<open>Layers of \<^verbatim>\<open>torch.nn\<close> used by the model\<close>

text \<open>
  A feature vector is a list of reals, a token sequence \<open>N \<times> C\<close> a list of vectors, a
  batch \<open>B \<times> N \<times> C\<close> a list of sequences. The parameters of a layer are a record; their
  shapes are fixed when the module is constructed. \<^verbatim>\<open>nn.Dropout(0.)\<close>, the rate every
  constructor call in this file uses, and \<^verbatim>\<open>nn.Identity\<close> are the identity and are
  left out.
\<close>

type_synonym vec = "real list"

definition dot :: "vec \<Rightarrow> vec \<Rightarrow> real" where
  "dot xs ys = sum_list (map2 (*) xs ys)"

definition vadd :: "vec \<Rightarrow> vec \<Rightarrow> vec" where
  "vadd xs ys = map2 (+) xs ys"

text \<open>Elementwise sum of two \<open>B \<times> N \<times> C\<close> tensors.\<close>

definition tadd :: "vec list list \<Rightarrow> vec list list \<Rightarrow> vec list list" where
  "tadd x y = map2 (map2 vadd) x y"

text \<open>\<^verbatim>\<open>nn.Linear\<close> (and \<^verbatim>\<open>nn.Conv1d\<close> with kernel size 1) on one vector.\<close>

record linear =
  weight :: "vec list"
  bias :: "vec option"

definition Linear_forward :: "linear \<Rightarrow> vec \<Rightarrow> vec" where
  "Linear_forward L x =
     (let y = map (\<lambda>row. dot row x) (weight L)
      in case bias L of None \<Rightarrow> y | Some b \<Rightarrow> vadd y b)"

text \<open>\<^verbatim>\<open>nn.LayerNorm\<close> over the last dimension (biased variance).\<close>

record layer_norm =
  ln_weight :: vec
  ln_bias :: vec
  ln_eps :: real

definition LayerNorm_forward :: "layer_norm \<Rightarrow> vec \<Rightarrow> vec" where
  "LayerNorm_forward P x =
     (let n = real (length x);
          mean = sum_list x / n;
          var = sum_list (map (\<lambda>v. (v - mean)\<^sup>2) x) / n
      in map (\<lambda>(v, w, b). (v - mean) / sqrt (var + ln_eps P) * w + b)
           (zip x (zip (ln_weight P) (ln_bias P))))"

text \<open>\<^verbatim>\<open>softmax(dim=-1)\<close> of one row of attention scores.\<close>

definition softmax :: "vec \<Rightarrow> vec" where
  "softmax xs = (let e = map exp xs; s = sum_list e in map (\<lambda>v. v / s) e)"

text \<open>
  \<^verbatim>\<open>Mlp.forward\<close>: \<^verbatim>\<open>fc1\<close>, the activation (\<^verbatim>\<open>act_layer\<close>, a constructor argument),
  \<^verbatim>\<open>fc2\<close>.
\<close>

record mlp =
  fc1 :: linear
  act :: "real \<Rightarrow> real"
  fc2 :: linear

definition Mlp_forward :: "mlp \<Rightarrow> vec \<Rightarrow> vec" where
  "Mlp_forward P x = Linear_forward (fc2 P) (map (act P) (Linear_forward (fc1 P) x))"

text \<open>
  \<^verbatim>\<open>DropPath\<close> (from \<^verbatim>\<open>timm\<close>) multiplies each sample of the batch by a factor drawn
  at the call: 1 when the module is \<^verbatim>\<open>nn.Identity\<close>, in evaluation mode or when the
  rate is 0; otherwise \<open>0\<close> when the sample is dropped and \<open>1 / keep_prob\<close> when it is
  kept. The factors drawn at a call are the argument \<open>r\<close>: \<open>r b\<close> is the factor of
  sample \<open>b\<close>.
\<close>

definition drop_path :: "(nat \<Rightarrow> real) \<Rightarrow> vec list list \<Rightarrow> vec list list" where
  "drop_path r x = map (\<lambda>b. map (map (\<lambda>v. v * r b)) (x ! b)) [0..<length x]"

text \<open>The slice \<^verbatim>\<open>xs[-n:]\<close> for \<open>n \<ge> 0\<close>: with \<open>n = 0\<close> it is the whole list.\<close>

definition py_last :: "nat \<Rightarrow> 'a list \<Rightarrow> 'a list" where
  "py_last n xs = (if n = 0 then xs else drop (length xs - n) xs)"

section \<open>\<^verbatim>\<open>Encoder\<close>: the embedding of the groups\<close>

text \<open>
  Inside the encoder a tensor \<open>BG \<times> C \<times> n\<close> is a list of \<open>BG\<close> groups, each a list of
  \<open>n\<close> feature vectors of width \<open>C\<close>, one for each point.
\<close>

definition vec_of_point :: "point \<Rightarrow> vec" where
  "vec_of_point p = (case p of (x, y, z) \<Rightarrow> [x, y, z])"

definition relu :: "real \<Rightarrow> real" where
  "relu v = max 0 v"

text \<open>
  \<^verbatim>\<open>torch.max(feature, dim=2)[0]\<close> for one group: the maximum of each of the \<open>C\<close>
  channels over the points of the group.
\<close>

definition max_pool :: "nat \<Rightarrow> vec list \<Rightarrow> vec" where
  "max_pool C vs = map (\<lambda>c. Max (set (map (\<lambda>v. v ! c) vs))) [0..<C]"

text \<open>
  The layers of the two \<^verbatim>\<open>nn.Sequential\<close> stacks, named by their position.
  \<^verbatim>\<open>nn.Conv1d\<close> with kernel size 1 computes the feature vector of a point from the
  feature vector of that point: the layer is a function on vectors, whatever its weights
  and the rounding of its sums. \<^verbatim>\<open>nn.BatchNorm1d\<close> normalises the vector of a point
  with statistics that, in training mode, it computes from the whole tensor: the layer
  maps the tensor to the function it applies to every point, or raises.
\<close>

record encoder =
  encoder_channel :: nat
  first_conv_0 :: "vec \<Rightarrow> vec"
  first_conv_1 :: "vec list list \<Rightarrow> error + (vec \<Rightarrow> vec)"
  first_conv_3 :: "vec \<Rightarrow> vec"
  second_conv_0 :: "vec \<Rightarrow> vec"
  second_conv_1 :: "vec list list \<Rightarrow> error + (vec \<Rightarrow> vec)"
  second_conv_3 :: "vec \<Rightarrow> vec"

text \<open>
  One stack: \<^verbatim>\<open>Conv1d\<close>, \<^verbatim>\<open>BatchNorm1d\<close>, \<^verbatim>\<open>ReLU\<close>, \<^verbatim>\<open>Conv1d\<close>.
\<close>

definition Sequential_forward ::
  "(vec \<Rightarrow> vec) \<Rightarrow> (vec list list \<Rightarrow> error + (vec \<Rightarrow> vec)) \<Rightarrow> (vec \<Rightarrow> vec)
     \<Rightarrow> vec list list \<Rightarrow> error + vec list list" where
  "Sequential_forward conv_0 bn_1 conv_3 x =
     (let y = map (map conv_0) x in
      case bn_1 y of
        Inl e \<Rightarrow> Inl e
      | Inr f \<Rightarrow> Inr (map (map (\<lambda>v. conv_3 (map relu (f v)))) y))"

text \<open>
  \<^verbatim>\<open>Encoder.forward(point_groups)\<close> on a tensor \<open>B \<times> G \<times> n \<times> 3\<close>; the result is
  \<open>B \<times> G \<times> C\<close>. The first stack gives 256 channels. \<^verbatim>\<open>Conv1d\<close> raises
  \<^verbatim>\<open>RuntimeError\<close> on groups without points; a tensor without groups has no point
  count in the list model and is read as one without points.
\<close>

definition Encoder_forward :: "encoder \<Rightarrow> point list list list \<Rightarrow> error + vec list list" where
  "Encoder_forward P point_groups =
     (let bs = length point_groups; g = dim1 point_groups; n = dim2 point_groups;
          x = map (map vec_of_point) (concat point_groups)
      in if n = 0 then Inl RuntimeError
         else
           case Sequential_forward (first_conv_0 P) (first_conv_1 P) (first_conv_3 P) x of
             Inl e \<Rightarrow> Inl e
           | Inr feature \<Rightarrow>
               let feature_global = map (max_pool 256) feature;
                   feature2 = map2 (\<lambda>gl grp. map (\<lambda>v. gl @ v) grp) feature_global feature
               in case Sequential_forward (second_conv_0 P) (second_conv_1 P) (second_conv_3 P)
                         feature2 of
                    Inl e \<Rightarrow> Inl e
                  | Inr feature3 \<Rightarrow>
                      let feature_global2 = map (max_pool (encoder_channel P)) feature3
                      in Inr (map (\<lambda>b. take g (drop (b * g) feature_global2)) [0..<bs]))"

text \<open>
  Two tensors are \<open>perm_groups\<close> when each group of the second holds the points of the
  group of the first at the same position, in any order. A normalisation layer is
  \<open>bn_order_free\<close> when the function it applies does not depend on the order of the
  points inside the groups.
\<close>

definition perm_groups :: "'a list list \<Rightarrow> 'a list list \<Rightarrow> bool" where
  "perm_groups x x' = list_all2 (\<lambda>grp grp'. mset grp = mset grp') x x'"

definition bn_order_free :: "(vec list list \<Rightarrow> error + (vec \<Rightarrow> vec)) \<Rightarrow> bool" where
  "bn_order_free bn = (\<forall>x x'. perm_groups x x' \<longrightarrow> bn x' = bn x)"






section \<open>Attention and transformer blocks\<close>

subsection \<open>\<^verbatim>\<open>Attention\<close>: shared-weight self and cross attention\<close>

record attention =
  num_heads :: nat
  scale :: real
  qkv :: linear
  proj :: linear

text \<open>
  One sample of scaled dot-product attention. \<open>qs\<close> and \<open>ks\<close> are outputs of the
  \<^verbatim>\<open>qkv\<close> layer (width \<open>3 * C\<close>) for the query tokens and for the key/value tokens.
  After \<^verbatim>\<open>reshape(B, N, 3, num_heads, C // num_heads).permute(2, 0, 3, 1, 4)\<close>, head
  \<open>h\<close> of the query is the slice of width \<open>d = C div num_heads\<close> at offset \<open>h * d\<close>,
  of the key at \<open>C + h * d\<close>, and of the value at \<open>2 * C + h * d\<close>. The result for a
  token is the concatenation over the heads
  (\<^verbatim>\<open>(attn @ v).transpose(1, 2).reshape(B, N, C)\<close>).
\<close>

definition attend :: "attention \<Rightarrow> nat \<Rightarrow> vec list \<Rightarrow> vec list \<Rightarrow> vec list" where
  "attend A C qs ks =
     map (\<lambda>qn. concat (map (\<lambda>h.
            let d = C div num_heads A;
                q = take d (drop (h * d) qn);
                attn = softmax (map (\<lambda>kn. dot q (take d (drop (C + h * d) kn)) * scale A) ks)
            in map (\<lambda>j. sum_list (map2 (\<lambda>a kn. a * (take d (drop (2 * C + h * d) kn) ! j)) attn ks))
                 [0..<d])
          [0..<num_heads A])) qs"

text \<open>\<^verbatim>\<open>Attention.forward(x)\<close>, the branch \<^verbatim>\<open>y is None\<close>.\<close>

definition Attention_forward :: "attention \<Rightarrow> vec list list \<Rightarrow> vec list list" where
  "Attention_forward A x =
     (let C = dim2 x
      in map (\<lambda>xs. let t = map (Linear_forward (qkv A)) xs
                    in map (Linear_forward (proj A)) (attend A C t t)) x)"

text \<open>
  \<^verbatim>\<open>Attention.forward(x, y)\<close> with \<open>y\<close> given: \<open>x\<close> and \<open>y\<close> are concatenated along
  the sequence, the \<open>y\<close> tokens query all keys and values, the \<open>x\<close> tokens query the first
  \<open>N\<close>. It returns the pair \<open>(x, y)\<close>.
\<close>

definition Attention_forward_y ::
  "attention \<Rightarrow> vec list list \<Rightarrow> vec list list \<Rightarrow> vec list list \<times> vec list list" where
  "Attention_forward_y A x y =
     (let N = dim1 x; C = dim2 x;
          t = map (map (Linear_forward (qkv A))) (map2 (@) x y);
          y' = map (\<lambda>ts. map (Linear_forward (proj A)) (attend A C (drop N ts) ts)) t;
          x' = map (\<lambda>ts. map (Linear_forward (proj A)) (attend A C (take N ts) (take N ts))) t
      in (x', y'))"

subsection \<open>\<^verbatim>\<open>Block\<close>\<close>

record block =
  norm1 :: layer_norm
  norm2 :: layer_norm
  mlp :: mlp
  attn :: attention

text \<open>
  \<^verbatim>\<open>Block.forward(x)\<close>, the branch \<^verbatim>\<open>y is None\<close>. \<open>rs k\<close> holds the factors of
  the \<open>k\<close>-th \<^verbatim>\<open>drop_path\<close> call, counted from 0.
\<close>

definition Block_forward :: "block \<Rightarrow> (nat \<Rightarrow> nat \<Rightarrow> real) \<Rightarrow> vec list list \<Rightarrow> vec list list" where
  "Block_forward P rs x =
     (let x1 = tadd x (drop_path (rs 0)
                  (Attention_forward (attn P) (map (map (LayerNorm_forward (norm1 P))) x)));
          x2 = tadd x1 (drop_path (rs 1)
                  (map (map (\<lambda>v. Mlp_forward (mlp P) (LayerNorm_forward (norm2 P) v))) x1))
      in x2)"

text \<open>
  \<^verbatim>\<open>Block.forward(x, y)\<close> with \<open>y\<close> given. \<open>rs k\<close> holds the factors of the
  \<open>k\<close>-th of the four \<^verbatim>\<open>drop_path\<close> calls: attention of \<open>x\<close>, attention of \<open>y\<close>, MLP
  of \<open>x\<close>, MLP of \<open>y\<close>.
\<close>

definition Block_forward_y ::
  "block \<Rightarrow> (nat \<Rightarrow> nat \<Rightarrow> real) \<Rightarrow> vec list list \<Rightarrow> vec list list \<Rightarrow> vec list list \<times> vec list list" where
  "Block_forward_y P rs x y =
     (let new_x = map (map (LayerNorm_forward (norm1 P))) x;
          new_y = map (map (LayerNorm_forward (norm1 P))) y;
          a = Attention_forward_y (attn P) new_x new_y;
          new_x1 = tadd x (drop_path (rs 0) (fst a));
          new_y1 = tadd y (drop_path (rs 1) (snd a));
          new_x2 = tadd new_x1 (drop_path (rs 2)
                     (map (map (\<lambda>v. Mlp_forward (mlp P) (LayerNorm_forward (norm2 P) v))) new_x1));
          new_y2 = tadd new_y1 (drop_path (rs 3)
                     (map (map (\<lambda>v. Mlp_forward (mlp P) (LayerNorm_forward (norm2 P) v))) new_y1))
      in (new_x2, new_y2))"

section \<open>\<^verbatim>\<open>PCP_MAE.proj2img\<close>: projection of a point cloud to a pseudo-image\<close>

text \<open>
  The constants set in \<^verbatim>\<open>PCP_MAE.__init__\<close>: \<^verbatim>\<open>img_size\<close>, \<^verbatim>\<open>img_offset\<close>,
  \<^verbatim>\<open>img_mean\<close> and \<^verbatim>\<open>img_std\<close>; \<^verbatim>\<open>proj_reduction\<close> is \<^verbatim>\<open>'sum'\<close>.
\<close>

definition img_size :: nat where
  "img_size = 224"

definition img_offset :: "(int \<times> int) list" where
  "img_offset = [(-2, -2), (-2, -1), (-2, 0), (-2, 1), (-2, 2),
                 (-1, -2), (-1, -1), (-1, 0), (-1, 1), (-1, 2),
                 (0, -2), (0, -1), (0, 0), (0, 1), (0, 2),
                 (1, -2), (1, -1), (1, 0), (1, 1), (1, 2),
                 (2, -2), (2, -1), (2, 0), (2, 1), (2, 2)]"

definition img_mean :: "real list" where
  "img_mean = [485 / 1000, 456 / 1000, 406 / 1000]"

definition img_std :: "real list" where
  "img_std = [229 / 1000, 224 / 1000, 225 / 1000]"

text \<open>
  Division of \<^verbatim>\<open>float32\<close> tensors: the quotient rounded to \<^verbatim>\<open>float32\<close>. A zero divisor
  gives a value that is not a number: NaN for \<^verbatim>\<open>0/0\<close>, an infinity otherwise. \<open>None\<close>
  stands for such a value. Arithmetic on it gives it again, \<^verbatim>\<open>max\<close> and \<^verbatim>\<open>min\<close> along
  a dimension that holds NaN give NaN, and every comparison with NaN is false.
\<close>

definition fdiv :: "real \<Rightarrow> real \<Rightarrow> real option" where
  "fdiv a b = (if b = 0 then None else Some (float32 (a / b)))"

text \<open>
  \<^verbatim>\<open>torch.floor\<close>: the result is a float holding an integer, modelled as an
  \<open>int option\<close>.
\<close>

definition ffloor :: "real option \<Rightarrow> int option" where
  "ffloor v = map_option floor v"

definition fadd :: "int option \<Rightarrow> int option \<Rightarrow> int option" where
  "fadd a b = (case a of None \<Rightarrow> None | Some x \<Rightarrow> map_option (\<lambda>y. x + y) b)"

text \<open>\<^verbatim>\<open>t.max(dim=1)[0]\<close> and \<^verbatim>\<open>t.min(dim=1)[0]\<close> on one column of a sample.\<close>

definition fmax :: "int option list \<Rightarrow> int option" where
  "fmax vs = (if list_ex (\<lambda>v. v = None) vs then None else Some (Max (set (map the vs))))"

definition fmin :: "int option list \<Rightarrow> int option" where
  "fmin vs = (if list_ex (\<lambda>v. v = None) vs then None else Some (Min (set (map the vs))))"

text \<open>
  The locals of \<^verbatim>\<open>proj2img\<close>, for one sample \<open>p\<close> (a list of \<open>N\<close> points) of the
  batch. \<^verbatim>\<open>pc_range\<close> is a difference of \<^verbatim>\<open>float32\<close> tensors, and
  \<^verbatim>\<open>pc_range[:, :2].max(dim=-1)[0] / (self.img_size - 3)\<close> a \<^verbatim>\<open>float32\<close> quotient:
\<close>

definition pc_range :: "point list \<Rightarrow> real \<times> real" where
  "pc_range p = (float32 (Max (set (map fst p)) - Min (set (map fst p))),
                 float32 (Max (set (map (fst \<circ> snd) p)) - Min (set (map (fst \<circ> snd) p))))"

definition grid_size :: "point list \<Rightarrow> real" where
  "grid_size p = float32 (max (fst (pc_range p)) (snd (pc_range p)) / (real img_size - 3))"

definition pc_min :: "point list \<Rightarrow> real \<times> real" where
  "pc_min p = (Min (set (map fst p)), Min (set (map (fst \<circ> snd) p)))"

definition idx_xy :: "point list \<Rightarrow> (int option \<times> int option) list" where
  "idx_xy p = map (\<lambda>(x, y, z).
       (ffloor (fdiv (float32 (x - fst (pc_min p))) (grid_size p)),
        ffloor (fdiv (float32 (y - snd (pc_min p))) (grid_size p)))) p"

text \<open>
  Densification: each index pair is repeated with the 25 offsets, plus one; the
  \<^verbatim>\<open>view\<close> puts the 25 copies of a point next to each other.
\<close>

definition idx_xy_dense :: "point list \<Rightarrow> (int option \<times> int option) list" where
  "idx_xy_dense p = concat (map (\<lambda>(i, j).
       map (\<lambda>(ox, oy). (fadd (fadd i (Some ox)) (Some 1), fadd (fadd j (Some oy)) (Some 1)))
         img_offset) (idx_xy p))"

text \<open>
  \<^verbatim>\<open>torch.floor((max + min) / 2).int()\<close>; on integers the floor of the half is
  \<open>div 2\<close>. The conversion of NaN to an integer is not specified: it is \<open>None\<close>, and
  the sum of a NaN index and any offset is NaN.
\<close>

definition idx_xy_dense_center :: "point list \<Rightarrow> int option \<times> int option" where
  "idx_xy_dense_center p =
     (let d = idx_xy_dense p in
      (map_option (\<lambda>s. s div 2) (fadd (fmax (map fst d)) (fmin (map fst d))),
       map_option (\<lambda>s. s div 2) (fadd (fmax (map snd d)) (fmin (map snd d)))))"

definition offset_x :: "point list \<Rightarrow> int option" where
  "offset_x p = map_option (\<lambda>c. int img_size div 2 - c - 1) (fst (idx_xy_dense_center p))"

definition offset_y :: "point list \<Rightarrow> int option" where
  "offset_y p = map_option (\<lambda>c. int img_size div 2 - c - 1) (snd (idx_xy_dense_center p))"

text \<open>
  Lines 623 to 626: both comparisons are made on the index before it is changed; an
  index below 0 is raised by one, an index above 223 lowered by one.
\<close>

definition shift_idx :: "int option \<Rightarrow> int option" where
  "shift_idx v = map_option (\<lambda>i. i + (if i < 0 then 1 else 0) - (if i > 223 then 1 else 0)) v"

definition idx_xy_dense_offset :: "point list \<Rightarrow> (int option \<times> int option) list" where
  "idx_xy_dense_offset p =
     map (\<lambda>(i, j). (shift_idx (fadd i (offset_x p)), shift_idx (fadd j (offset_y p))))
       (idx_xy_dense p)"

text \<open>
  The test of the \<^verbatim>\<open>assert\<close> on one index:
  \<^verbatim>\<open>min() >= 0 and max() <= self.img_size - 1\<close> holds when every index passes it.
\<close>

definition idx_ok :: "int option \<Rightarrow> bool" where
  "idx_ok v = (case v of None \<Rightarrow> False | Some i \<Rightarrow> 0 \<le> i \<and> i \<le> int img_size - 1)"

definition new_idx_xy_dense :: "point list \<Rightarrow> nat list" where
  "new_idx_xy_dense p =
     map (\<lambda>(i, j). nat (the i * int img_size + the j)) (idx_xy_dense_offset p)"

text \<open>
  \<^verbatim>\<open>f_dense\<close>: the \<open>z\<close> coordinate of each point, 25 times, on three channels.
\<close>

definition f_dense :: "point list \<Rightarrow> real list list" where
  "f_dense p = concat (map (\<lambda>(x, y, z). replicate 25 [z, z, z]) p)"

text \<open>
  \<^verbatim>\<open>scatter(src, index, dim=1, reduce='sum')\<close> of \<^verbatim>\<open>torch_scatter\<close>: the output has
  \<^verbatim>\<open>index.max() + 1\<close> rows in every sample, and row \<open>k\<close> is the sum of the rows of
  \<open>src\<close> whose index is \<open>k\<close>.
\<close>

definition scatter :: "real list list list \<Rightarrow> nat list list \<Rightarrow> real list list list" where
  "scatter src index =
     (let dim_size = Max (set (concat index)) + 1 in
      map2 (\<lambda>s ix. map (\<lambda>k. map (\<lambda>c. sum_list (map (\<lambda>(v, i). v ! c)
                                     (filter (\<lambda>(v, i). i = k) (zip s ix)))) [0..<3])
                     [0..<dim_size]) src index)"

text \<open>
  The local \<^verbatim>\<open>res\<close> of \<^verbatim>\<open>proj2img\<close>, the raster \<open>B \<times> 224 \<times> 224 \<times> 3\<close> before the
  sigmoid. With no point in the samples, the reduction \<^verbatim>\<open>pc.max(dim=1)\<close> along the
  empty dimension raises \<^verbatim>\<open>IndexError\<close>. With no sample in the batch (the list model
  gives such a batch no point count: it stands for \<open>0 \<times> N \<times> 3\<close> with \<open>N > 0\<close>), the
  reductions along the points give empty tensors, and \<^verbatim>\<open>idx_xy_dense_offset.min()\<close> in the
  \<^verbatim>\<open>assert\<close>, a reduction of an empty tensor to a scalar, raises \<^verbatim>\<open>RuntimeError\<close>.
\<close>

definition proj2img_res :: "point list list \<Rightarrow> error + real list list list list" where
  "proj2img_res pc =
     (let B = length pc; N = dim1 pc in
      if pc = [] then Inl RuntimeError
      else if N = 0 then Inl IndexError
      else if \<not> list_all (\<lambda>p. list_all (\<lambda>(i, j). idx_ok i \<and> idx_ok j) (idx_xy_dense_offset p)) pc
        then Inl AssertionError
      else
        let out = scatter (map f_dense pc) (map new_idx_xy_dense pc);
            size1 = dim1 out
        in if size1 > img_size * img_size then Inl RuntimeError
           else
             let padded = map (\<lambda>s. s @ replicate (img_size * img_size - size1) [0, 0, 0]) out
             in Inr (map (\<lambda>s. map (\<lambda>i. map (\<lambda>j. s ! (i * img_size + j)) [0..<img_size])
                                [0..<img_size]) padded))"

definition sigmoid :: "real \<Rightarrow> real" where
  "sigmoid v = 1 / (1 + exp (- v))"

text \<open>
  \<^verbatim>\<open>proj2img(pc)\<close>: the image is \<^verbatim>\<open>res.permute(0, 3, 1, 2)\<close>, that is
  \<open>B \<times> 3 \<times> 224 \<times> 224\<close>, after the sigmoid and the normalisation by channel. The result
  is \<^verbatim>\<open>img_norm, pc_min, grid_size, (offset_x, offset_y)\<close>.
\<close>

definition proj2img ::
  "point list list \<Rightarrow>
     error + (real list list list list \<times> (real \<times> real) list \<times> real list
              \<times> (int option list \<times> int option list))" where
  "proj2img pc =
     (case proj2img_res pc of
        Inl e \<Rightarrow> Inl e
      | Inr res \<Rightarrow>
          Inr (map (\<lambda>r. map (\<lambda>c. map (\<lambda>i. map (\<lambda>j.
                        (sigmoid (r ! i ! j ! c) - img_mean ! c) / img_std ! c)
                      [0..<img_size]) [0..<img_size]) [0..<3]) res,
               map pc_min pc, map grid_size pc, (map offset_x pc, map offset_y pc)))"

section \<open>Construction of \<^verbatim>\<open>PCP_MAE\<close>\<close>

text \<open>
  The two loss modules of \<^verbatim>\<open>extensions.chamfer_dist\<close>, named by their class.
\<close>

datatype loss_func = ChamferDistanceL1 | ChamferDistanceL2

text \<open>
  \<^verbatim>\<open>build_loss_func(loss_type)\<close> stores the module in \<^verbatim>\<open>self.loss_func\<close> or raises
  \<^verbatim>\<open>NotImplementedError\<close>: the result is the module stored.
\<close>

definition build_loss_func :: "string \<Rightarrow> error + loss_func" where
  "build_loss_func loss_type =
     (if loss_type = ''cdl1'' then Inr ChamferDistanceL1
      else if loss_type = ''cdl2'' then Inr ChamferDistanceL2
      else Inl NotImplementedError)"

text \<open>
  \<^verbatim>\<open>PCP_MAE.__init__(config)\<close>. The attributes that depend on the loss name are
  \<^verbatim>\<open>self.loss\<close> and \<^verbatim>\<open>self.loss_func\<close>. The statements before the call of
  \<^verbatim>\<open>build_loss_func\<close> (lines 506 to 553) and after it (lines 563 to 595) construct
  modules of other files and libraries; what they raise, if anything, is the argument
  \<open>before\<close>, respectively \<open>after\<close>. An exception leaves the constructor at once, and no
  object is returned.
\<close>

record pcp_mae =
  loss :: string
  loss_func :: loss_func

definition PCP_MAE_init :: "error option \<Rightarrow> error option \<Rightarrow> string \<Rightarrow> error + pcp_mae" where
  "PCP_MAE_init before after config_loss =
     (case before of
        Some e \<Rightarrow> Inl e
      | None \<Rightarrow>
          (case build_loss_func config_loss of
             Inl e \<Rightarrow> Inl e
           | Inr f \<Rightarrow>
               (case after of
                  Some e \<Rightarrow> Inl e
                | None \<Rightarrow> Inr \<lparr>loss = config_loss, loss_func = f\<rparr>)))"

section \<open>\<^verbatim>\<open>PCP_MAE.forward\<close>: the pre-training pass\<close>

subsection \<open>Exceptions in sequence, indexing and reshaping\<close>

text \<open>A statement that raises ends the function: the rest runs on the value of \<open>Inr\<close>.\<close>

definition bind_err :: "error + 'a \<Rightarrow> ('a \<Rightarrow> error + 'b) \<Rightarrow> error + 'b" where
  "bind_err m f = (case m of Inl e \<Rightarrow> Inl e | Inr v \<Rightarrow> f v)"

text \<open>
  \<^verbatim>\<open>t[mask]\<close> for a tensor \<open>B \<times> G \<times> \<dots>\<close> and a boolean \<open>B \<times> G\<close> mask: the entries of
  \<open>t\<close> at the true positions, in row-major order. A mask of another shape raises
  \<^verbatim>\<open>IndexError\<close>.
\<close>

definition bool_index :: "'a list list \<Rightarrow> bool list list \<Rightarrow> error + 'a list" where
  "bool_index t msk =
     (if length msk \<noteq> length t \<or> dim1 msk \<noteq> dim1 t then Inl IndexError
      else Inr (concat (map2 (\<lambda>row m. map fst (filter snd (zip row m))) t msk)))"

text \<open>
  \<^verbatim>\<open>rows.reshape(B, -1, C)\<close> for a list of rows of positive width \<open>C\<close>: \<open>B\<close> chunks of
  equal length. \<^verbatim>\<open>RuntimeError\<close> when the number of rows is not a multiple of \<open>B\<close>, or
  when \<open>B\<close> is 0.
\<close>

definition reshape_rows :: "nat \<Rightarrow> 'a list \<Rightarrow> error + 'a list list" where
  "reshape_rows B rows =
     (if B = 0 \<or> length rows mod B \<noteq> 0 then Inl RuntimeError
      else Inr (map (\<lambda>b. take (length rows div B) (drop (b * (length rows div B)) rows)) [0..<B]))"

text \<open>
  \<^verbatim>\<open>t.reshape(K, -1, 3)\<close> on the entries of \<open>t\<close> in row-major order: \<open>K\<close> groups of
  rows of three entries.
\<close>

definition reshape_3 :: "nat \<Rightarrow> real list \<Rightarrow> error + vec list list" where
  "reshape_3 K flat =
     (if K = 0 \<or> length flat mod (K * 3) \<noteq> 0 then Inl RuntimeError
      else let n = length flat div (K * 3)
           in Inr (map (\<lambda>k. map (\<lambda>j. take 3 (drop ((k * n + j) * 3) flat)) [0..<n]) [0..<K]))"

text \<open>
  The sum \<^verbatim>\<open>x + y\<close> of two tensors \<open>B \<times> N \<times> C\<close>, with broadcasting; sizes that do
  not broadcast raise \<^verbatim>\<open>RuntimeError\<close>.
\<close>

definition tensor_add :: "vec list list \<Rightarrow> vec list list \<Rightarrow> error + vec list list" where
  "tensor_add x y =
     (case (bdim (length x) (length y), bdim (dim1 x) (dim1 y), bdim (dim2 x) (dim2 y)) of
        (Some B, Some N, Some C) \<Rightarrow>
          Inr (map (\<lambda>b. map (\<lambda>n. map (\<lambda>c. bnth (bnth (bnth x b) n) c + bnth (bnth (bnth y b) n) c)
                                  [0..<C])
                          [0..<N])
                 [0..<B])
      | _ \<Rightarrow> Inl RuntimeError)"

text \<open>
  \<^verbatim>\<open>torch.cat([x, y], dim=1)\<close>: the batch sizes and the widths must agree (a tensor
  without tokens has no width in the list model).
\<close>

definition cat1 :: "vec list list \<Rightarrow> vec list list \<Rightarrow> error + vec list list" where
  "cat1 x y =
     (if length x \<noteq> length y \<or> (dim1 x \<noteq> 0 \<and> dim1 y \<noteq> 0 \<and> dim2 x \<noteq> dim2 y)
      then Inl RuntimeError
      else Inr (map2 (@) x y))"

subsection \<open>\<^verbatim>\<open>TransformerEncoder\<close>\<close>

text \<open>
  \<^verbatim>\<open>TransformerEncoder.forward(x, pos, x_mask, pos_mask)\<close>, the branch with \<open>x_mask\<close>
  given, which \<^verbatim>\<open>MaskTransformer.forward\<close> takes. \<open>rss i\<close> holds the \<^verbatim>\<open>DropPath\<close>
  factors of block \<open>i\<close>.
\<close>

fun TransformerEncoder_forward ::
  "block list \<Rightarrow> (nat \<Rightarrow> nat \<Rightarrow> nat \<Rightarrow> real) \<Rightarrow> nat \<Rightarrow> vec list list \<Rightarrow> vec list list
     \<Rightarrow> vec list list \<Rightarrow> vec list list \<Rightarrow> error + (vec list list \<times> vec list list)" where
  "TransformerEncoder_forward [] rss i x pos x_mask pos_mask = Inr (x, x_mask)"
| "TransformerEncoder_forward (blk # blks) rss i x pos x_mask pos_mask =
     bind_err (tensor_add x pos) (\<lambda>xp.
     bind_err (tensor_add x_mask pos_mask) (\<lambda>xmp.
       let r = Block_forward_y blk (rss i) xp xmp
       in TransformerEncoder_forward blks rss (Suc i) (fst r) pos (snd r) pos_mask))"

subsection \<open>\<^verbatim>\<open>SelfAttention\<close>, \<^verbatim>\<open>SelfBlock\<close> and \<^verbatim>\<open>TransformerDecoder\<close>\<close>

text \<open>
  \<^verbatim>\<open>SelfAttention\<close> and \<^verbatim>\<open>SelfBlock\<close> have the parameters of \<^verbatim>\<open>Attention\<close> and
  \<^verbatim>\<open>Block\<close>, and their \<^verbatim>\<open>forward\<close> is the code of the branch \<^verbatim>\<open>y is None\<close> there.
\<close>

definition SelfAttention_forward :: "attention \<Rightarrow> vec list list \<Rightarrow> vec list list" where
  "SelfAttention_forward A x =
     (let C = dim2 x
      in map (\<lambda>xs. let t = map (Linear_forward (qkv A)) xs
                    in map (Linear_forward (proj A)) (attend A C t t)) x)"

definition SelfBlock_forward :: "block \<Rightarrow> (nat \<Rightarrow> nat \<Rightarrow> real) \<Rightarrow> vec list list \<Rightarrow> vec list list" where
  "SelfBlock_forward P rs x =
     (let x1 = tadd x (drop_path (rs 0)
                  (SelfAttention_forward (attn P) (map (map (LayerNorm_forward (norm1 P))) x)));
          x2 = tadd x1 (drop_path (rs 1)
                  (map (map (\<lambda>v. Mlp_forward (mlp P) (LayerNorm_forward (norm2 P) v))) x1))
      in x2)"

record transformer_decoder =
  dec_blocks :: "block list"
  dec_norm :: layer_norm

text \<open>The loop over the blocks; \<open>pos\<close> is added before each block when it is given.\<close>

fun TransformerDecoder_blocks ::
  "block list \<Rightarrow> (nat \<Rightarrow> nat \<Rightarrow> nat \<Rightarrow> real) \<Rightarrow> nat \<Rightarrow> vec list list \<Rightarrow> vec list list option
     \<Rightarrow> error + vec list list" where
  "TransformerDecoder_blocks [] rss i x pos = Inr x"
| "TransformerDecoder_blocks (blk # blks) rss i x pos =
     (case pos of
        None \<Rightarrow> TransformerDecoder_blocks blks rss (Suc i) (SelfBlock_forward blk (rss i) x) pos
      | Some p \<Rightarrow>
          bind_err (tensor_add x p) (\<lambda>xp.
            TransformerDecoder_blocks blks rss (Suc i) (SelfBlock_forward blk (rss i) xp) pos))"

text \<open>
  \<^verbatim>\<open>TransformerDecoder.forward(x, pos, return_token_num)\<close>: with \<open>pos\<close> given only the
  last \<open>return_token_num\<close> tokens are normalised and returned
  (\<^verbatim>\<open>x[:, -return_token_num:]\<close>); \<^verbatim>\<open>head\<close> is \<^verbatim>\<open>nn.Identity\<close>.
\<close>

definition TransformerDecoder_forward ::
  "transformer_decoder \<Rightarrow> (nat \<Rightarrow> nat \<Rightarrow> nat \<Rightarrow> real) \<Rightarrow> vec list list \<Rightarrow> vec list list option
     \<Rightarrow> nat \<Rightarrow> error + vec list list" where
  "TransformerDecoder_forward D rss x pos return_token_num =
     bind_err (TransformerDecoder_blocks (dec_blocks D) rss 0 x pos) (\<lambda>x'.
       Inr (map (map (LayerNorm_forward (dec_norm D)))
              (case pos of None \<Rightarrow> x' | Some p \<Rightarrow> map (py_last return_token_num) x')))"

subsection \<open>\<^verbatim>\<open>MaskTransformer.forward\<close>\<close>

text \<open>
  What the file does not determine: the helpers of \<^verbatim>\<open>utils\<close>, \<^verbatim>\<open>models.pos\<close>,
  \<^verbatim>\<open>clip\<close> and \<^verbatim>\<open>extensions\<close>, the library functions \<^verbatim>\<open>torch.norm\<close> and
  \<^verbatim>\<open>torch.argsort\<close>, and the random draws of one pass.
\<close>

record externals =
  e_fps :: "point list list \<Rightarrow> nat \<Rightarrow> point list list"
  e_knn_point :: "nat \<Rightarrow> point list list \<Rightarrow> point list list \<Rightarrow> nat list list list"
  e_torch_norm :: "point \<Rightarrow> real"
  e_argsort :: "real list \<Rightarrow> nat list"
  e_get_pos_embed :: "nat \<Rightarrow> point list list \<Rightarrow> vec list list"
  e_encode_image :: "real list list list list \<Rightarrow> error + vec list"
  e_loss_func :: "vec list list \<Rightarrow> vec list list \<Rightarrow> error + real"
  e_perms :: "nat list list"
  e_anchors :: "nat list"
  e_drop_enc :: "nat \<Rightarrow> nat \<Rightarrow> nat \<Rightarrow> real"
  e_drop_dec :: "nat \<Rightarrow> nat \<Rightarrow> nat \<Rightarrow> real"

text \<open>
  The attributes of a \<^verbatim>\<open>MaskTransformer\<close>; \<^verbatim>\<open>pos_embed\<close> is the stack
  \<^verbatim>\<open>Linear\<close>, \<^verbatim>\<open>GELU\<close>, \<^verbatim>\<open>Linear\<close>, and \<^verbatim>\<open>mask_pos_token\<close> the single token of the
  parameter \<open>1 \<times> 1 \<times> trans_dim\<close>.
\<close>

record mask_transformer =
  mt_mask_type :: string
  mt_mask_ratio :: real
  mt_trans_dim :: nat
  mt_encoder :: encoder
  mt_pos_embed :: mlp
  mt_mask_pos_token :: vec
  mt_blocks :: "block list"
  mt_norm :: layer_norm

definition MaskTransformer_forward ::
  "externals \<Rightarrow> mask_transformer \<Rightarrow> point list list list \<Rightarrow> point list list \<Rightarrow> bool
     \<Rightarrow> error + (vec list list \<times> vec list list \<times> bool list list)" where
  "MaskTransformer_forward E T neighborhood center noaug =
     bind_err (if mt_mask_type T = ''rand''
               then mask_center_rand (mt_mask_ratio T) (e_perms E) center noaug
               else mask_center_block (e_torch_norm E) (e_argsort E) (mt_mask_ratio T)
                      (e_anchors E) center noaug) (\<lambda>bool_masked_pos.
     bind_err (Encoder_forward (mt_encoder T) neighborhood) (\<lambda>group_input_tokens.
     let batch_size = length group_input_tokens in
     bind_err (bool_index group_input_tokens (map (map Not) bool_masked_pos)) (\<lambda>vis.
     bind_err (reshape_rows batch_size vis) (\<lambda>x_vis.
     bind_err (bool_index group_input_tokens bool_masked_pos) (\<lambda>sel.
     bind_err (reshape_rows batch_size sel) (\<lambda>x_mask.
     bind_err (bool_index center (map (map Not) bool_masked_pos)) (\<lambda>cv.
     bind_err (reshape_rows batch_size cv) (\<lambda>vis_center.
     let pos = map (map (Mlp_forward (mt_pos_embed T)))
                 (e_get_pos_embed E (mt_trans_dim T) vis_center);
         M = dim1 x_mask;
         mask_pos_token = replicate batch_size (replicate M (mt_mask_pos_token T))
     in bind_err (TransformerEncoder_forward (mt_blocks T) (e_drop_enc E) 0
                    x_vis pos x_mask mask_pos_token) (\<lambda>r.
          Inr (map (map (LayerNorm_forward (mt_norm T))) (fst r),
               map (map (LayerNorm_forward (mt_norm T))) (snd r),
               bool_masked_pos))))))))))"

subsection \<open>\<^verbatim>\<open>PCP_MAE.forward\<close>\<close>

text \<open>
  The sub-modules of a constructed \<^verbatim>\<open>PCP_MAE\<close> that \<^verbatim>\<open>forward\<close> uses.
  \<^verbatim>\<open>increase_dim\<close> is a \<^verbatim>\<open>Conv1d\<close> with kernel size 1, a linear layer on each token;
  \<^verbatim>\<open>pred_pos_proj\<close> is the stack \<^verbatim>\<open>Linear\<close>, \<^verbatim>\<open>LayerNorm\<close>, \<^verbatim>\<open>ReLU\<close>,
  \<^verbatim>\<open>Linear\<close>.
\<close>

record pcp_mae_modules =
  pm_num_group :: nat
  pm_group_size :: nat
  pm_trans_dim :: nat
  pm_MAE_encoder :: mask_transformer
  pm_mask_token :: vec
  pm_MAE_decoder :: transformer_decoder
  pm_increase_dim :: linear
  pm_pred_pos_proj_0 :: linear
  pm_pred_pos_proj_1 :: layer_norm
  pm_pred_pos_proj_3 :: linear

definition pred_pos_proj :: "pcp_mae_modules \<Rightarrow> vec \<Rightarrow> vec" where
  "pred_pos_proj P v =
     Linear_forward (pm_pred_pos_proj_3 P)
       (map relu (LayerNorm_forward (pm_pred_pos_proj_1 P) (Linear_forward (pm_pred_pos_proj_0 P) v)))"

text \<open>
  The locals of \<^verbatim>\<open>forward\<close> that hold the mask, the visible tokens, the output of the
  reconstruction decoder, the reconstructed points and the first loss.
\<close>

record forward_locals =
  loc_mask :: "bool list list"
  loc_x_vis :: "vec list list"
  loc_x_rec :: "vec list list"
  loc_rebuild_points :: "vec list list"
  loc_loss1 :: real

text \<open>
  \<^verbatim>\<open>forward(pts)\<close> up to the first loss (line 741): the locals it has computed there, or
  the exception raised on the way. The second loss enters only by the product
  \<^verbatim>\<open>tmp_img_feats * tmp_pot_rec\<close>, which raises \<^verbatim>\<open>RuntimeError\<close> when the image
  features \<open>B \<times> D\<close> and the mean of \<^verbatim>\<open>pot_rec\<close> over the tokens do not broadcast.
\<close>

definition PCP_MAE_forward_locals ::
  "externals \<Rightarrow> pcp_mae_modules \<Rightarrow> point list list \<Rightarrow> error + forward_locals" where
  "PCP_MAE_forward_locals E P pts =
     bind_err (Group_forward (pm_num_group P) (pm_group_size P) (e_fps E) (e_knn_point E) pts)
       (\<lambda>(neighborhood, center).
     bind_err (MaskTransformer_forward E (pm_MAE_encoder P) neighborhood center False)
       (\<lambda>(x_vis, x_mask_without_pos, mask).
     let B = length x_vis in
     bind_err (bool_index neighborhood mask) (\<lambda>sel.
     bind_err (reshape_rows B (concat sel)) (\<lambda>mask_pts.
     bind_err (proj2img mask_pts) (\<lambda>(imgs_mask, pc_min_mask, grid_size_mask, offsets_mask).
     bind_err (e_encode_image E imgs_mask) (\<lambda>img_feats.
     let pot_rec = map (map (pred_pos_proj P)) x_mask_without_pos in
     if bdim (length img_feats) (length pot_rec) = None
        \<or> bdim (dim1 img_feats) (dim2 pot_rec) = None then Inl RuntimeError
     else
     bind_err (bool_index center (map (map Not) mask)) (\<lambda>cv.
     bind_err (reshape_rows B cv) (\<lambda>center_vis.
     bind_err (bool_index center mask) (\<lambda>cm.
     bind_err (reshape_rows B cm) (\<lambda>center_mask.
     let pos_emd_vis = map (map (Mlp_forward (mt_pos_embed (pm_MAE_encoder P))))
                         (e_get_pos_embed E (pm_trans_dim P) center_vis);
         pos_emd_mask = map (map (Mlp_forward (mt_pos_embed (pm_MAE_encoder P))))
                          (e_get_pos_embed E (pm_trans_dim P) center_mask);
         N = dim1 pot_rec;
         mask_token = replicate B (replicate N (pm_mask_token P))
     in
     bind_err (cat1 x_vis mask_token) (\<lambda>x_full.
     bind_err (cat1 pos_emd_vis pos_emd_mask) (\<lambda>pos_full.
     bind_err (TransformerDecoder_forward (pm_MAE_decoder P) (e_drop_dec E) x_full (Some pos_full) N)
       (\<lambda>x_rec.
     let B2 = length x_rec; M = dim1 x_rec in
     bind_err (reshape_3 (B2 * M)
                 (concat (concat (map (map (Linear_forward (pm_increase_dim P))) x_rec))))
       (\<lambda>rebuild_points.
     bind_err (reshape_3 (B2 * M) (concat (map vec_of_point (concat sel)))) (\<lambda>gt_points.
     bind_err (e_loss_func E rebuild_points gt_points) (\<lambda>loss1.
       Inr \<lparr>loc_mask = mask, loc_x_vis = x_vis, loc_x_rec = x_rec,
            loc_rebuild_points = rebuild_points, loc_loss1 = loss1\<rparr>))))))))))))))))"

section \<open>Properties of the rounding\<close>

lemma scale_down_0: "a < 2 ^ p \<Longrightarrow> 0 < n \<Longrightarrow> scale_down p n a = 0"
  by (cases n) simp_all

lemma scale_up_eq:
  "0 \<le> a \<Longrightarrow> u \<le> n \<Longrightarrow> 2 ^ (p - 1) \<le> a * 2 ^ u
     \<Longrightarrow> (u = 0 \<or> a * 2 ^ (u - 1) < 2 ^ (p - 1)) \<Longrightarrow> scale_up p n a = u"
proof (induction n arbitrary: a u)
  case 0
  then show ?case by simp
next
  case (Suc n)
  show ?case
  proof (cases u)
    case 0
    then show ?thesis using Suc.prems by simp
  next
    case (Suc v)
    have lt: "a * 2 ^ v < 2 ^ (p - 1)" using Suc.prems(4) Suc by simp
    have "a \<le> a * 2 ^ v" using Suc.prems(1) by (simp add: mult_le_cancel_left1)
    then have a: "\<not> 2 ^ (p - 1) \<le> a" using lt by linarith
    have "scale_up p n (2 * a) = v"
    proof (rule Suc.IH)
      show "0 \<le> 2 * a" using Suc.prems(1) by simp
      show "v \<le> n" using Suc.prems(2) Suc by simp
      show "2 ^ (p - 1) \<le> 2 * a * 2 ^ v"
        using Suc.prems(3) Suc by (simp add: mult.assoc mult.left_commute)
      show "v = 0 \<or> 2 * a * 2 ^ (v - 1) < 2 ^ (p - 1)"
      proof (cases v)
        case 0
        then show ?thesis by simp
      next
        case (Suc w)
        then show ?thesis using lt by (simp add: mult.assoc mult.left_commute)
      qed
    qed
    then show ?thesis using a Suc by simp
  qed
qed

text \<open>
  The rounding of a positive number below \<open>2 ^ p\<close>, given the number \<open>u\<close> of
  doublings that normalises it.
\<close>

lemma fround_up:
  assumes "0 < x" "x < 2 ^ p" "u \<le> m" "2 ^ (p - 1) \<le> x * 2 ^ u"
    "u = 0 \<or> x * 2 ^ (u - 1) < 2 ^ (p - 1)"
  shows "fround p m x = of_int (round_even (x * 2 ^ u)) / 2 ^ u"
proof -
  have "scale_down p 2048 \<bar>x\<bar> = 0" using assms(1,2) by (intro scale_down_0) simp_all
  moreover have "scale_up p m \<bar>x\<bar> = u" using assms by (intro scale_up_eq) simp_all
  ultimately show ?thesis using assms(1) by (simp add: fround_def)
qed

lemma fround_0: "fround p m 0 = 0"
  by (simp add: fround_def)

lemma fround_minus: "fround p m (- x) = - fround p m x"
  by (simp add: fround_def Let_def sgn_minus)

lemma round_even_cases:
  "round_even x = \<lfloor>x\<rfloor> \<or> (round_even x = \<lfloor>x\<rfloor> + 1 \<and> of_int \<lfloor>x\<rfloor> < x)"
  by (auto simp: round_even_def Let_def)

lemma round_even_nonneg: "0 \<le> x \<Longrightarrow> 0 \<le> round_even x"
  using round_even_cases[of x] by (auto simp: zero_le_floor)

lemma round_even_le:
  assumes "x \<le> of_int k"
  shows "round_even x \<le> k"
proof -
  have f: "\<lfloor>x\<rfloor> \<le> k" using assms by (simp add: floor_le_iff)
  show ?thesis
  proof (cases "round_even x = \<lfloor>x\<rfloor>")
    case True
    then show ?thesis using f by simp
  next
    case False
    then have r: "round_even x = \<lfloor>x\<rfloor> + 1" and lt: "of_int \<lfloor>x\<rfloor> < x"
      using round_even_cases[of x] by auto
    have "of_int \<lfloor>x\<rfloor> < (of_int k :: real)" using lt assms by linarith
    then have "\<lfloor>x\<rfloor> < k" by simp
    then show ?thesis using r by simp
  qed
qed

lemma fround_nonneg:
  assumes "0 \<le> x"
  shows "0 \<le> fround p m x"
proof -
  have "0 \<le> round_even (\<bar>x\<bar> / 2 ^ d)" "0 \<le> round_even (\<bar>x\<bar> * 2 ^ u)" for d u :: nat
    by (rule round_even_nonneg, simp)+
  then show ?thesis using assms by (simp add: fround_def Let_def sgn_if)
qed

text \<open>Rounding does not pass an integer of the format.\<close>

lemma fround_le_nat:
  assumes "0 \<le> x" "x \<le> real n" "n < 2 ^ p"
  shows "fround p m x \<le> real n"
proof (cases "x = 0")
  case True
  then show ?thesis by (simp add: fround_0)
next
  case False
  then have pos: "0 < x" using assms(1) by simp
  have "real n < real (2 ^ p)" using assms(3) by (simp only: of_nat_less_iff)
  then have "real n < 2 ^ p" by simp
  then have "x < 2 ^ p" using assms(2) by linarith
  then have "\<bar>x\<bar> < 2 ^ p" using assms(1) by simp
  then have d: "scale_down p 2048 \<bar>x\<bar> = 0" by (intro scale_down_0) simp_all
  define u where "u = scale_up p m \<bar>x\<bar>"
  have "x * 2 ^ u \<le> of_int (int n * 2 ^ u)" using assms(2) by simp
  then have "round_even (x * 2 ^ u) \<le> int n * 2 ^ u" by (rule round_even_le)
  then have "real_of_int (round_even (x * 2 ^ u)) \<le> real_of_int (int n * 2 ^ u)"
    by (simp only: of_int_le_iff)
  then have "real_of_int (round_even (x * 2 ^ u)) \<le> real n * 2 ^ u"
    by simp
  then have "real_of_int (round_even (x * 2 ^ u)) / 2 ^ u \<le> real n"
    by (simp add: divide_le_eq)
  then show ?thesis using pos d by (simp add: fround_def Let_def u_def)
qed

lemma float32_0: "float32 0 = 0"
  by (simp add: float32_def fround_0)

lemma float64_0: "float64 0 = 0"
  by (simp add: float64_def fround_0)

lemma float32_1: "float32 1 = 1"
  unfolding float32_def by (subst fround_up[where u = 23]) (simp_all add: round_even_def)

lemma float64_1: "float64 1 = 1"
  unfolding float64_def by (subst fround_up[where u = 52]) (simp_all add: round_even_def)

section \<open>Properties of the masking policies\<close>

lemma mset_shuffle:
  assumes "mset perm = mset [0..<length xs]"
  shows "mset (shuffle perm xs) = mset xs"
proof -
  have "mset (shuffle perm xs) = image_mset (\<lambda>j. xs ! j) (mset perm)"
    by (simp add: shuffle_def)
  also have "\<dots> = mset (map (\<lambda>j. xs ! j) [0..<length xs])"
    by (simp add: assms)
  also have "\<dots> = mset xs"
    by (simp add: map_nth)
  finally show ?thesis .
qed

lemma num_true_map_mset:
  assumes "mset ys = mset xs"
  shows "num_true (map P ys) = length (filter P xs)"
proof -
  have "num_true (map P ys) = size (filter_mset P (mset ys))"
    by (simp add: num_true_def filter_map comp_def flip: mset_filter)
  also have "\<dots> = length (filter P xs)"
    by (simp add: assms flip: mset_filter)
  finally show ?thesis .
qed

lemma nth_update_True: "j < length row \<Longrightarrow> row[i := True] ! j = (row ! j \<or> j = i)"
  by (cases "i = j") auto

lemma set_mask_nth:
  "set_mask sel row = map (\<lambda>j. row ! j \<or> j \<in> set sel) [0..<length row]"
proof (induction sel arbitrary: row)
  case Nil
  show ?case by (simp add: set_mask_def map_nth)
next
  case (Cons i sel)
  have "set_mask (i # sel) row = set_mask sel (row[i := True])"
    by (simp add: set_mask_def)
  also have "\<dots> = map (\<lambda>j. row[i := True] ! j \<or> j \<in> set sel) [0..<length row]"
    by (simp add: Cons.IH)
  also have "\<dots> = map (\<lambda>j. row ! j \<or> j \<in> set (i # sel)) [0..<length row]"
    by (rule map_cong) (auto simp: nth_update_True)
  finally show ?case .
qed

lemma num_true_set_mask:
  assumes "distinct sel" and "set sel \<subseteq> {0..<n}"
  shows "num_true (set_mask sel (replicate n False)) = length sel"
proof -
  have "num_true (set_mask sel (replicate n False))
        = length (filter (\<lambda>j. j \<in> set sel) [0..<n])"
  proof -
    have "filter (\<lambda>j. replicate n False ! j \<or> j \<in> set sel) [0..<n]
          = filter (\<lambda>j. j \<in> set sel) [0..<n]"
      by (rule filter_cong) auto
    then show ?thesis
      by (simp add: set_mask_nth num_true_def filter_map comp_def)
  qed
  also have "\<dots> = card {j \<in> set [0..<n]. j \<in> set sel}"
    by (metis distinct_filter distinct_upt distinct_card set_filter)
  also have "{j \<in> set [0..<n]. j \<in> set sel} = set sel"
    using assms(2) by auto
  also have "card (set sel) = length sel"
    using assms(1) by (rule distinct_card)
  finally show ?thesis .
qed

lemma is_argsortD:
  assumes "is_argsort argsort"
  shows "mset (argsort d) = mset [0..<length d]" and "length (argsort d) = length d"
    and "distinct (argsort d)" and "set (argsort d) = {0..<length d}"
    and "sorted (map (\<lambda>i. d ! i) (argsort d))"
proof -
  show m: "mset (argsort d) = mset [0..<length d]"
    and "sorted (map (\<lambda>i. d ! i) (argsort d))"
    using assms by (simp_all add: is_argsort_def)
  show "length (argsort d) = length d"
    using mset_eq_length[OF m] by simp
  show "distinct (argsort d)"
    using mset_eq_imp_distinct_iff[OF m] by simp
  show "set (argsort d) = {0..<length d}"
    using mset_eq_setD[OF m] by simp
qed

lemma is_argsort_stable: "is_argsort argsort_stable"
  by (simp add: is_argsort_def argsort_stable_def)

text \<open>
  The number of groups to mask, \<^verbatim>\<open>int(mask_ratio * G)\<close>, lies between 0 and \<open>G\<close>: the
  rounding of the product does not pass \<open>G\<close>.
\<close>

lemma num_mask_range:
  assumes "0 < r" "r < 1" "G < 2 ^ 53"
  shows "0 \<le> py_int (float64 (r * real G))" and "py_int (float64 (r * real G)) \<le> int G"
proof -
  have nn: "0 \<le> r * real G" using assms by simp
  have le: "r * real G \<le> real G" using assms by (simp add: mult_left_le_one_le)
  have f0: "0 \<le> float64 (r * real G)"
    unfolding float64_def using nn by (rule fround_nonneg)
  have f1: "float64 (r * real G) \<le> real G"
    unfolding float64_def using nn le assms(3) by (rule fround_le_nat)
  show "0 \<le> py_int (float64 (r * real G))" using f0 by (simp add: py_int_def)
  have "\<lfloor>float64 (r * real G)\<rfloor> \<le> \<lfloor>real G\<rfloor>" using f1 by (rule floor_mono)
  then show "py_int (float64 (r * real G)) \<le> int G" using f0 by (simp add: py_int_def)
qed

lemma length_set_mask: "length (set_mask sel row) = length row"
  by (simp add: set_mask_nth)

lemma rand_row:
  assumes "0 < r" "r < 1" "G < 2 ^ 53" and "mset perm = mset [0..<G]"
  defines "k \<equiv> py_int (float64 (r * real G))"
  defines "row \<equiv> map (\<lambda>v. v \<noteq> (0::real))
                   (shuffle perm (replicate (nat (int G - k)) 0 @ replicate (nat k) 1))"
  shows "length row = G" and "int (num_true row) = k"
proof -
  let ?xs = "replicate (nat (int G - k)) (0::real) @ replicate (nat k) 1"
  have k0: "0 \<le> k" and kG: "k \<le> int G"
    using num_mask_range[OF assms(1,2,3)] by (simp_all add: k_def)
  have len: "length ?xs = G" using k0 kG by simp
  have "length perm = G"
    using mset_eq_length[OF assms(4)] by simp
  then show "length row = G" by (simp add: row_def shuffle_def)
  have "mset (shuffle perm ?xs) = mset ?xs"
    by (rule mset_shuffle) (simp only: len assms(4))
  then have "num_true row = length (filter (\<lambda>v. v \<noteq> 0) ?xs)"
    unfolding row_def by (rule num_true_map_mset)
  also have "\<dots> = nat k" by simp
  finally show "int (num_true row) = k" using k0 by simp
qed

lemma block_row:
  assumes "0 < r" "r < 1" "length points < 2 ^ 53" "is_argsort argsort"
  shows "length (mask_block_row torch_norm argsort r a points) = length points"
    and "int (num_true (mask_block_row torch_norm argsort r a points))
         = py_int (float64 (r * real (length points)))"
proof -
  let ?G = "length points"
  let ?idx = "argsort (distance_matrix torch_norm points a)"
  let ?k = "py_int (float64 (r * real ?G))"
  have li: "length ?idx = ?G"
    by (simp add: is_argsortD(2)[OF assms(4)] distance_matrix_def)
  have k0: "0 \<le> ?k" and kG: "?k \<le> int ?G"
    using num_mask_range[OF assms(1,2,3)] by simp_all
  have row: "mask_block_row torch_norm argsort r a points
             = set_mask (take (nat ?k) ?idx) (replicate ?G False)"
    using k0 by (simp add: mask_block_row_def Let_def li py_take_def)
  show "length (mask_block_row torch_norm argsort r a points) = ?G"
    by (simp add: row length_set_mask)
  have "distinct (take (nat ?k) ?idx)"
    by (simp add: is_argsortD(3)[OF assms(4)])
  moreover have "set (take (nat ?k) ?idx) \<subseteq> {0..<?G}"
    using set_take_subset[of "nat ?k" ?idx]
    by (simp add: is_argsortD(4)[OF assms(4)] distance_matrix_def)
  ultimately have "num_true (mask_block_row torch_norm argsort r a points)
                   = length (take (nat ?k) ?idx)"
    unfolding row by (rule num_true_set_mask)
  also have "\<dots> = nat ?k" using kG li by simp
  finally show "int (num_true (mask_block_row torch_norm argsort r a points)) = ?k"
    using k0 by simp
qed

lemma dim1_rows: "center \<noteq> [] \<Longrightarrow> list_all (\<lambda>row. length row = G) center \<Longrightarrow> dim1 center = G"
  by (cases center) (simp_all add: dim1_def)

text \<open>
  Claim C1, as amended. For a batch of \<open>B \<ge> 1\<close> rows of \<open>G \<ge> 1\<close> centers
  (\<open>G < 2 ^ 53\<close>) and a \<open>mask_ratio\<close> strictly between 0 and 1, both policies return a
  boolean \<open>B \<times> G\<close> mask whose every row has exactly \<^verbatim>\<open>int(mask_ratio * G)\<close> true entries:
  the product as Python computes it, rounded to binary64, and truncated, a number between
  0 and \<open>G\<close>. It is not \<open>round (mask_ratio * G)\<close>, and it is not always the floor of the
  exact product. With \<open>mask_ratio = 0\<close> or \<open>noaug\<close> set, both return the all-false
  mask.
\<close>

theorem mask_policies_truncated_count:
  assumes "0 < mask_ratio" and "mask_ratio < 1"
    and "center \<noteq> []" and "0 < G" and "G < 2 ^ 53"
    and "list_all (\<lambda>row. length row = G) center"
    and "length perms = length center" and "list_all (\<lambda>p. mset p = mset [0..<G]) perms"
    and "is_argsort argsort"
  shows "(\<exists>m. mask_center_rand mask_ratio perms center False = Inr m
            \<and> length m = length center
            \<and> list_all (\<lambda>row. length row = G
                 \<and> int (num_true row) = py_int (float64 (mask_ratio * real G))) m)
       \<and> (\<exists>m. mask_center_block torch_norm argsort mask_ratio anchors center False = Inr m
            \<and> length m = length center
            \<and> list_all (\<lambda>row. length row = G
                 \<and> int (num_true row) = py_int (float64 (mask_ratio * real G))) m)
       \<and> 0 \<le> py_int (float64 (mask_ratio * real G))
       \<and> py_int (float64 (mask_ratio * real G)) \<le> int G
       \<and> mask_center_rand 0 perms center noaug = Inr (replicate (length center) (replicate G False))
       \<and> mask_center_block torch_norm argsort 0 anchors center noaug
           = Inr (replicate (length center) (replicate G False))
       \<and> mask_center_rand mask_ratio perms center True
           = Inr (replicate (length center) (replicate G False))
       \<and> mask_center_block torch_norm argsort mask_ratio anchors center True
           = Inr (replicate (length center) (replicate G False))"
proof -
  let ?k = "py_int (float64 (mask_ratio * real G))"
  have G: "dim1 center = G" using assms(3,6) by (rule dim1_rows)
  have k: "0 \<le> ?k" "?k \<le> int G"
    using num_mask_range[OF assms(1,2,5)] by simp_all
  let ?rand = "map (\<lambda>i. map (\<lambda>v. v \<noteq> (0::real))
                 (shuffle (perms ! i) (replicate (nat (int G - ?k)) 0 @ replicate (nat ?k) 1)))
               [0..<length center]"
  have r1: "mask_center_rand mask_ratio perms center False = Inr ?rand"
    using assms(1,3) k by (simp add: mask_center_rand_def Let_def G)
  have r2: "list_all (\<lambda>row. length row = G \<and> int (num_true row) = ?k) ?rand"
  proof -
    have "mset (perms ! i) = mset [0..<G]" if "i < length center" for i
      using assms(7,8) that by (simp add: list_all_length)
    then show ?thesis
      using rand_row[OF assms(1,2,5)] by (simp add: list_all_iff)
  qed
  let ?block = "map (\<lambda>i. mask_block_row torch_norm argsort mask_ratio (anchors ! i) (center ! i))
                  [0..<length center]"
  have b1: "mask_center_block torch_norm argsort mask_ratio anchors center False = Inr ?block"
    using assms(1,3,4) by (simp add: mask_center_block_def G)
  have b2: "list_all (\<lambda>row. length row = G \<and> int (num_true row) = ?k) ?block"
  proof -
    have "length (center ! i) = G" if "i < length center" for i
      using assms(6) that by (simp add: list_all_length)
    then show ?thesis
      using block_row[OF assms(1,2) _ assms(9)] assms(5) by (simp add: list_all_iff)
  qed
  have z: "mask_center_rand 0 perms center noaug = Inr (replicate (length center) (replicate G False))"
    "mask_center_block torch_norm argsort 0 anchors center noaug
       = Inr (replicate (length center) (replicate G False))"
    "mask_center_rand mask_ratio perms center True
       = Inr (replicate (length center) (replicate G False))"
    "mask_center_block torch_norm argsort mask_ratio anchors center True
       = Inr (replicate (length center) (replicate G False))"
    by (simp_all add: mask_center_rand_def mask_center_block_def Let_def G)
  show ?thesis
    using r1 r2 b1 b2 z k by simp
qed

text \<open>Values of the product: \<open>0.75 * 5\<close> is exact, and truncates to 3.\<close>

lemma float64_15_4: "float64 (15 / 4) = 15 / 4"
  unfolding float64_def by (subst fround_up[where u = 51]) (simp_all add: round_even_def)

lemma num_mask_3_4: "py_int (float64 (3 / 4 * real 5)) = 3"
  by (simp add: float64_15_4 py_int_def)

text \<open>
  The binary64 number nearest to 0.58 is \<open>5224175567749775 / 2 ^ 53\<close>; its product with
  50 rounds to the number just below 29, and 28 groups are masked. The number nearest to
  0.6 is \<open>5404319552844595 / 2 ^ 53\<close>; its product with 5 is below 3 and rounds to 3:
  3 groups are masked, one more than the floor of the exact product.
\<close>

lemma num_mask_058: "py_int (float64 (5224175567749775 / 2 ^ 53 * real 50)) = 28"
proof -
  have f: "float64 (5224175567749775 / 2 ^ 53 * 50) = 8162774324609023 / 2 ^ 48"
    unfolding float64_def by (subst fround_up[where u = 48]) (simp_all add: round_even_def)
  have e: "5224175567749775 / 2 ^ 53 * real 50 = (5224175567749775 / 2 ^ 53 * 50 :: real)"
    by simp
  show ?thesis unfolding e f py_int_def by simp
qed

lemma num_mask_06:
  "py_int (float64 (5404319552844595 / 2 ^ 53 * real 5)) = 3"
  "\<lfloor>5404319552844595 / 2 ^ 53 * real 5\<rfloor> = 2"
proof -
  have f: "float64 (5404319552844595 / 2 ^ 53 * 5) = 3"
    unfolding float64_def by (subst fround_up[where u = 51]) (simp_all add: round_even_def)
  have e: "5404319552844595 / 2 ^ 53 * real 5 = (5404319552844595 / 2 ^ 53 * 5 :: real)"
    by simp
  show "py_int (float64 (5404319552844595 / 2 ^ 53 * real 5)) = 3"
    unfolding e f py_int_def by simp
  show "\<lfloor>5404319552844595 / 2 ^ 53 * real 5\<rfloor> = 2"
    by simp
qed

text \<open>The theorem at one batch of five centers with \<open>mask_ratio = 3/4\<close>.\<close>

theorem mask_policies_truncated_count_witness:
  "(\<exists>m. mask_center_rand (3/4) [[4, 0, 3, 1, 2]]
             [[(0,0,0), (1,0,0), (2,0,0), (3,0,0), (4,0,0)]] False = Inr m
        \<and> length m = 1
        \<and> list_all (\<lambda>row. length row = 5 \<and> int (num_true row) = 3) m)
   \<and> (\<exists>m. mask_center_block norm_exact argsort_stable (3/4) [2]
             [[(0,0,0), (1,0,0), (2,0,0), (3,0,0), (4,0,0)]] False = Inr m
        \<and> length m = 1
        \<and> list_all (\<lambda>row. length row = 5 \<and> int (num_true row) = 3) m)"
proof -
  have p: "list_all (\<lambda>p. mset p = mset [0..<(5::nat)]) [[4, 0, 3, 1, 2]]"
    by code_simp
  show ?thesis
    using p is_argsort_stable num_mask_3_4
      mask_policies_truncated_count [of "3/4" "[[(0,0,0), (1,0,0), (2,0,0), (3,0,0), (4,0,0)]]" 5
        "[[4, 0, 3, 1, 2]]" argsort_stable norm_exact "[2]" False]
    by simp
qed

text \<open>
  Claim C1 as stated fails: with \<open>G = 5\<close> and \<open>mask_ratio = 3/4\<close> the random policy
  masks \<open>int(3.75) = 3\<close> groups, while \<open>round(3.75) = 4\<close>.
\<close>

theorem mask_count_round_counterexample:
  "mask_center_rand (3/4) [[0, 1, 2, 3, 4]]
      [[(0,0,0), (1,0,0), (2,0,0), (3,0,0), (4,0,0)]] False
    = Inr [[False, False, True, True, True]]
   \<and> int (num_true [False, False, True, True, True]) \<noteq> round (3/4 * real 5)"
proof -
  have r: "round (15 / 4 :: real) = 4" by (simp add: round_def)
  have u: "[0..<Suc 0] = [0]" by simp
  show ?thesis
    using num_mask_3_4
    by (simp add: mask_center_rand_def dim1_def Let_def shuffle_def num_true_def r u
        numeral_eq_Suc)
qed

text \<open>
  When every other distance of the row is greater than the anchor's, every result of
  \<^verbatim>\<open>torch.argsort\<close> puts the anchor first.
\<close>

lemma hd_argsort_unique_min:
  assumes "is_argsort argsort"
    and "a < length d" and "\<And>j. j < length d \<Longrightarrow> j \<noteq> a \<Longrightarrow> d ! a < d ! j"
  shows "hd (argsort d) = a"
proof -
  let ?idx = "argsort d"
  have ne: "?idx \<noteq> []"
    using assms(2) is_argsortD(2)[OF assms(1), of d] by auto
  have srt: "sorted (map (\<lambda>i. d ! i) ?idx)"
    by (rule is_argsortD(5)[OF assms(1)])
  have hin: "hd ?idx \<in> set ?idx" using ne by simp
  then have hlt: "hd ?idx < length d" by (simp add: is_argsortD(4)[OF assms(1)])
  have "a \<in> set ?idx" using assms(2) by (simp add: is_argsortD(4)[OF assms(1)])
  then have "d ! hd ?idx \<le> d ! a"
    using srt ne by (cases ?idx) auto
  then show ?thesis
    using assms(3)[OF hlt] by force
qed

lemma block_row_anchor:
  assumes "is_argsort argsort" and "index < length points"
    and "1 \<le> py_int (float64 (mask_ratio * real (length points)))"
    and "\<And>j. j < length points \<Longrightarrow> j \<noteq> index \<Longrightarrow>
           distance_matrix torch_norm points index ! index
           < distance_matrix torch_norm points index ! j"
  shows "mask_block_row torch_norm argsort mask_ratio index points ! index"
proof -
  let ?d = "distance_matrix torch_norm points index"
  let ?idx = "argsort ?d"
  let ?k = "py_int (float64 (mask_ratio * real (length points)))"
  have ld: "length ?d = length points" by (simp add: distance_matrix_def)
  have li: "length ?idx = length points" by (simp add: is_argsortD(2)[OF assms(1)] ld)
  have hd: "hd ?idx = index"
    using assms(1,2,4) by (intro hd_argsort_unique_min) (simp_all add: ld)
  have ne: "?idx \<noteq> []" using assms(2) li by auto
  have "index \<in> set (take (nat ?k) ?idx)"
    using hd ne assms(3) by (cases ?idx; cases "nat ?k") auto
  moreover have "mask_block_row torch_norm argsort mask_ratio index points
        = set_mask (take (nat ?k) ?idx) (replicate (length points) False)"
    using assms(3) by (simp add: mask_block_row_def Let_def li py_take_def)
  ultimately show ?thesis
    using assms(2) by (simp add: set_mask_nth)
qed

text \<open>
  Claim C10, as amended. In the block policy, whenever \<^verbatim>\<open>int(mask_ratio * G)\<close> is at
  least 1 and every other center of the row has a computed distance to the anchor
  greater than the distance computed for the anchor itself, the anchor group of that row
  is masked, whatever order \<^verbatim>\<open>torch.argsort\<close> gives to equal distances. The distances
  are those that \<^verbatim>\<open>torch.norm\<close> computes from the \<^verbatim>\<open>float32\<close> differences, for centers
  with coordinates of magnitude \<open>2 ^ 62\<close> at most.
\<close>

theorem block_anchor_masked:
  assumes "is_argsort argsort"
    and "i < length center" and "list_all (\<lambda>row. length row = G) center"
    and "anchors ! i < G"
    and "1 \<le> py_int (float64 (mask_ratio * real G))"
    and "\<forall>j<G. j \<noteq> anchors ! i \<longrightarrow>
           distance_matrix torch_norm (center ! i) (anchors ! i) ! (anchors ! i)
           < distance_matrix torch_norm (center ! i) (anchors ! i) ! j"
    and "list_all (in_range 62) (center ! i)"
  shows "\<exists>m. mask_center_block torch_norm argsort mask_ratio anchors center False = Inr m
           \<and> m ! i ! (anchors ! i)"
proof -
  have ne: "center \<noteq> []" using assms(2) by auto
  have G: "dim1 center = G" using ne assms(3) by (rule dim1_rows)
  have len: "length (center ! i) = G"
    using assms(2,3) by (simp add: list_all_length)
  have r0: "mask_ratio \<noteq> 0"
    using assms(5) by (auto simp: py_int_def float64_0)
  have G0: "G \<noteq> 0" using assms(4) by simp
  have "mask_block_row torch_norm argsort mask_ratio (anchors ! i) (center ! i) ! (anchors ! i)"
    using assms(1,4,5,6) by (intro block_row_anchor) (simp_all add: len)
  then show ?thesis
    using assms(2) ne r0 G0 by (simp add: mask_center_block_def G)
qed

lemma psub_self: "psub p p = (0, 0, 0)"
  by (cases p) (simp add: psub_def float32_0)

lemma norm_exact_0: "norm_exact (0, 0, 0) = 0"
  by (simp add: norm_exact_def)

text \<open>The theorem at two distinct centers with anchor 1 and \<open>mask_ratio = 1/2\<close>.\<close>

theorem block_anchor_masked_witness:
  "\<exists>m. mask_center_block norm_exact argsort_stable (1/2) [1] [[(0,0,0), (1,0,0)]] False = Inr m
       \<and> m ! 0 ! ([1] ! 0)"
proof -
  have k: "(1::int) \<le> py_int (float64 ((1/2) * real 2))" by (simp add: py_int_def float64_1)
  have d: "distance_matrix norm_exact [(0,0,0), (1,0,0)] 1 = [1, 0]"
    by (simp add: distance_matrix_def psub_def float32_0 float32_1 norm_exact_def)
  have d': "distance_matrix norm_exact [(0,0,0), (1,0,0)] (Suc 0) = [1, 0]"
    using d by simp
  have r: "list_all (in_range 62) ([[(0,0,0), (1,0,0)]] ! 0)"
    by (simp add: in_range_def)
  have "\<forall>j<2. j \<noteq> [1::nat] ! 0 \<longrightarrow>
      distance_matrix norm_exact ([[(0,0,0), (1,0,0)]] ! 0) ([1] ! 0) ! ([1] ! 0)
      < distance_matrix norm_exact ([[(0,0,0), (1,0,0)]] ! 0) ([1] ! 0) ! j"
    by (simp add: d' less_Suc_eq numeral_2_eq_2)
  then show ?thesis
    using k r is_argsort_stable
      block_anchor_masked [of argsort_stable 0 "[[(0,0,0), (1,0,0)]]" 2 "[1]" "1/2" norm_exact]
    by simp
qed

text \<open>
  Claim C10 as stated fails when another center has the anchor's distance: for two equal
  centers, anchor 1 and \<open>mask_ratio = 1/2\<close>, both distances are 0, the indices may come
  in the order 0, 1, one group is masked, and it is group 0.
\<close>

theorem block_anchor_unmasked_counterexample:
  "(1::int) \<le> py_int (float64 ((1/2) * real 2))
   \<and> mask_center_block norm_exact argsort_stable (1/2) [1] [[(0,0,0), (0,0,0)]] False
       = Inr [[True, False]]
   \<and> \<not> [[True, False]] ! 0 ! 1"
  by (simp add: mask_center_block_def dim1_def mask_block_row_def distance_matrix_def
      psub_def float32_0 float64_1 norm_exact_def
      argsort_stable_def py_int_def py_take_def set_mask_def Let_def
      upt_rec[of 0] upt_rec[of 1] upt_rec[of "Suc 0"])

section \<open>Properties of \<^verbatim>\<open>Group.forward\<close>\<close>

lemma has_shape2_dim1: "has_shape2 B G t \<Longrightarrow> 0 < B \<Longrightarrow> dim1 t = G"
  by (cases t) (simp_all add: has_shape2_def dim1_def)

lemma has_shape2_nth: "has_shape2 B G t \<Longrightarrow> b < B \<Longrightarrow> length (t ! b) = G"
  by (simp add: has_shape2_def list_all_length)

lemma has_shape3_nth: "has_shape3 B G M t \<Longrightarrow> b < B \<Longrightarrow> has_shape2 G M (t ! b)"
  by (simp add: has_shape3_def list_all_length)

lemma has_shape3_dim1: "has_shape3 B G M t \<Longrightarrow> 0 < B \<Longrightarrow> dim1 t = G"
  by (cases t) (simp_all add: has_shape3_def has_shape2_def dim1_def)

lemma has_shape3_dim2:
  assumes "has_shape3 B G M t" "0 < B" "0 < G"
  shows "dim2 t = M"
proof -
  obtain r rs where t: "t = r # rs" using assms(1,2) by (cases t) (auto simp: has_shape3_def)
  then have r: "has_shape2 G M r" using assms(1) by (simp add: has_shape3_def)
  then obtain g gs where "r = g # gs" using assms(3) by (cases r) (auto simp: has_shape2_def)
  then show ?thesis using r t by (simp add: dim2_def dim1_def has_shape2_def)
qed

lemma length_concat_uniform:
  "list_all (\<lambda>r. length r = N) xs \<Longrightarrow> length (concat xs) = length xs * N"
  by (induction xs) simp_all

lemma nth_concat_uniform:
  "list_all (\<lambda>r. length r = N) xs \<Longrightarrow> b < length xs \<Longrightarrow> i < N
     \<Longrightarrow> concat xs ! (i + b * N) = xs ! b ! i"
proof (induction xs arbitrary: b)
  case Nil
  then show ?case by simp
next
  case (Cons x xs)
  show ?case
  proof (cases b)
    case 0
    then show ?thesis using Cons.prems by (simp add: nth_append)
  next
    case (Suc b')
    then have "concat (x # xs) ! (i + b * N) = concat xs ! (i + b' * N)"
      using Cons.prems by (simp add: nth_append)
    then show ?thesis using Cons Suc by simp
  qed
qed

lemma index_bound:
  fixes i b N B :: nat
  assumes "i < N" "b < B"
  shows "i + b * N < B * N"
proof -
  have "i + b * N < N + b * N" using assms(1) by simp
  also have "\<dots> = Suc b * N" by simp
  also have "\<dots> \<le> B * N" using assms(2) by (intro mult_le_mono1) simp
  finally show ?thesis .
qed

lemma bnth_nth: "i < length xs \<Longrightarrow> bnth xs i = xs ! i"
  by (cases "length xs = 1") (simp_all add: bnth_def)

lemma bdim_same: "bdim a a = Some a"
  by (simp add: bdim_def)

lemma has_shape3_concat:
  assumes "has_shape3 B G M t"
  shows "has_shape2 (B * G) M (concat t)"
    and "b < B \<Longrightarrow> g < G \<Longrightarrow> concat t ! (g + b * G) = t ! b ! g"
proof -
  have rows: "list_all (\<lambda>r. length r = G) t" and lt: "length t = B"
    using assms by (simp_all add: has_shape3_def has_shape2_def list_all_iff)
  have "list_all (\<lambda>r. length r = M) (concat t)"
    using assms by (auto simp: has_shape3_def has_shape2_def list_all_iff)
  then show "has_shape2 (B * G) M (concat t)"
    using length_concat_uniform[OF rows] lt by (simp add: has_shape2_def)
  show "concat t ! (g + b * G) = t ! b ! g" if "b < B" "g < G"
    using rows that lt by (intro nth_concat_uniform) simp_all
qed

text \<open>
  The result of \<^verbatim>\<open>Group.forward\<close> under the contracts of \<^verbatim>\<open>fps\<close> and
  \<^verbatim>\<open>knn_point\<close>: the centers, and the neighbourhoods \<open>B \<times> G \<times> M\<close> of centered points.
\<close>

lemma Group_forward_result:
  assumes "0 < B" and "0 < G" and "0 < N"
    and "has_shape2 B N xyz"
    and "fps xyz G = center" and "has_shape2 B G center"
    and "knn_point M xyz center = idx" and "has_shape3 B G M idx"
    and "list_all (list_all (list_all (\<lambda>i. i < N))) idx"
  shows "\<exists>nb. Group_forward G M fps knn_point xyz = Inr (nb, center)
           \<and> has_shape3 B G M nb
           \<and> (\<forall>b<B. \<forall>g<G. \<forall>m<M.
                 nb ! b ! g ! m = psub (xyz ! b ! (idx ! b ! g ! m)) (center ! b ! g))"
proof -
  let ?flat = "concat xyz"
  let ?idx3 = "map (\<lambda>b. map (map (\<lambda>i. i + b * N)) (idx ! b)) [0..<B]"
  let ?idx' = "concat (concat ?idx3)"
  let ?nbh = "map (\<lambda>b. map (\<lambda>g. map (\<lambda>m. ?flat ! (?idx' ! ((b * G + g) * M + m))) [0..<M]) [0..<G])
                [0..<B]"
  let ?nb = "map (\<lambda>b. map (\<lambda>g. map (\<lambda>p. psub p (bnth (bnth center b) g)) (bnth (bnth ?nbh b) g))
                          [0..<G]) [0..<B]"
  have lB: "length xyz = B" and rows: "list_all (\<lambda>r. length r = N) xyz"
    using assms(4) by (simp_all add: has_shape2_def)
  have N: "dim1 xyz = N" using assms(4,1) by (rule has_shape2_dim1)
  have lidx: "length idx = B" using assms(8) by (simp add: has_shape3_def)
  have lc: "length center = B" using assms(6) by (simp add: has_shape2_def)
  have dc: "dim1 center = G" using assms(6,1) by (rule has_shape2_dim1)
  have d1: "dim1 idx = G" using assms(8,1) by (rule has_shape3_dim1)
  have d2: "dim2 idx = M" using assms(8,1,2) by (rule has_shape3_dim2)
  have lflat: "length ?flat = B * N" using rows lB by (simp add: length_concat_uniform)
  have sh: "has_shape2 G M (idx ! b)" if "b < B" for b
    using assms(8) that by (rule has_shape3_nth)
  have lgr: "length (idx ! b) = G" if "b < B" for b
    using sh[OF that] by (simp add: has_shape2_def)
  have lg: "length (idx ! b ! g) = M" if "b < B" "g < G" for b g
    using sh[OF that(1)] that(2) by (rule has_shape2_nth)
  have rng: "idx ! b ! g ! m < N" if "b < B" "g < G" "m < M" for b g m
  proof -
    have "list_all (list_all (\<lambda>i. i < N)) (idx ! b)"
      using assms(9) that(1) lidx by (simp add: list_all_length)
    moreover have "g < length (idx ! b)" using lgr[OF that(1)] that(2) by simp
    ultimately have "list_all (\<lambda>i. i < N) (idx ! b ! g)" by (simp add: list_all_length)
    then show ?thesis using lg[OF that(1,2)] that(3) by (simp add: list_all_length)
  qed
  have bn: "map (\<lambda>b. map (map (\<lambda>i. i + b * N)) (bnth idx b)) [0..<B] = ?idx3"
    by (rule map_cong) (simp_all add: bnth_nth lidx)
  have sh3: "has_shape3 B G M ?idx3"
    using assms(8) lidx
    by (auto simp: has_shape3_def has_shape2_def list_all_length)
  have c1: "has_shape2 (B * G) M (concat ?idx3)"
    using sh3 by (rule has_shape3_concat(1))
  have len': "length ?idx' = B * G * M"
    using c1 length_concat_uniform[of M "concat ?idx3"] by (simp add: has_shape2_def)
  have at: "?idx' ! ((b * G + g) * M + m) = idx ! b ! g ! m + b * N"
    if "b < B" "g < G" "m < M" for b g m
  proof -
    have bg: "g + b * G < B * G" using that(2,1) by (rule index_bound)
    have "?idx' ! (m + (g + b * G) * M) = concat ?idx3 ! (g + b * G) ! m"
      using c1 bg that(3) by (intro nth_concat_uniform) (simp_all add: has_shape2_def)
    also have "concat ?idx3 ! (g + b * G) = ?idx3 ! b ! g"
      using sh3 that(1,2) by (rule has_shape3_concat(2))
    also have "?idx3 ! b ! g ! m = idx ! b ! g ! m + b * N"
      using that lgr[OF that(1)] lg[OF that(1,2)] by simp
    finally show ?thesis by (simp add: add.commute)
  qed
  have fne: "?flat \<noteq> []"
  proof
    assume "?flat = []"
    then have "length ?flat = 0" by (simp only: list.size)
    then show False using lflat assms(1,3) by simp
  qed
  have noerr: "\<not> list_ex (\<lambda>i. length ?flat \<le> i) ?idx'"
  proof -
    have "i + b * N < length ?flat" if bB: "b < B" and rin: "r \<in> set (idx ! b)" and iin: "i \<in> set r"
      for b r i
    proof -
      obtain g where g: "g < length (idx ! b)" "r = idx ! b ! g"
        using rin by (metis in_set_conv_nth)
      then have gG: "g < G" using lgr[OF bB] by simp
      obtain m where m: "m < length r" "i = r ! m"
        using iin by (metis in_set_conv_nth)
      then have "m < M" using lg[OF bB gG] g by simp
      then have "i < N" using rng[OF bB gG] m g by simp
      then show ?thesis using index_bound[OF _ bB] lflat by simp
    qed
    then show ?thesis by (fastforce simp: list_ex_iff)
  qed
  have eq: "Group_forward G M fps knn_point xyz = Inr (?nb, center)"
    using noerr len' fne
    by (simp add: Group_forward_def Let_def assms(5,7) d1 d2 N lB lidx lc dc bdim_same bn)
  have nbh: "bnth (bnth ?nbh b) g = map (\<lambda>m. ?flat ! (?idx' ! ((b * G + g) * M + m))) [0..<M]"
    if "b < B" "g < G" for b g
    using that by (simp add: bnth_nth)
  have cen: "bnth (bnth center b) g = center ! b ! g" if "b < B" "g < G" for b g
    using that lc has_shape2_nth[OF assms(6) that(1)] by (simp add: bnth_nth)
  have nbsh: "has_shape3 B G M ?nb"
    using nbh by (auto simp: has_shape3_def has_shape2_def list_all_length)
  have rec: "?nb ! b ! g ! m = psub (xyz ! b ! (idx ! b ! g ! m)) (center ! b ! g)"
    if "b < B" "g < G" "m < M" for b g m
  proof -
    have "?nb ! b ! g ! m = psub (?flat ! (?idx' ! ((b * G + g) * M + m))) (center ! b ! g)"
      using that by (simp add: nbh cen)
    moreover have "?flat ! (idx ! b ! g ! m + b * N) = xyz ! b ! (idx ! b ! g ! m)"
      using rows that(1) lB rng[OF that] by (intro nth_concat_uniform) simp_all
    ultimately show ?thesis by (simp add: at[OF that])
  qed
  show ?thesis using eq nbsh rec by blast
qed

text \<open>
  Claim C2, as amended. For an input \<open>B \<times> N \<times> 3\<close> cloud with \<open>B, N, G \<ge> 1\<close>, with \<^verbatim>\<open>fps\<close> returning
  \<open>B \<times> G\<close> centers and \<^verbatim>\<open>knn_point\<close> returning a \<open>B \<times> G \<times> M\<close> tensor of indices
  below \<open>N\<close> (their contracts), all coordinates being of magnitude \<open>2 ^ 126\<close> at most,
  \<^verbatim>\<open>Group.forward\<close> returns neighbourhoods of shape
  \<open>B \<times> G \<times> M\<close>, so every group holds exactly \<open>M\<close> points, and each of them is the
  \<^verbatim>\<open>float32\<close> difference of the point of the input cloud that \<^verbatim>\<open>knn_point\<close> selected
  and the center of the group. The difference is rounded: adding the center back gives
  the point again only when no rounding took place.
\<close>

theorem group_forward_centered:
  assumes "0 < B" and "0 < G" and "0 < N"
    and "has_shape2 B N xyz"
    and "fps xyz G = center" and "has_shape2 B G center"
    and "knn_point M xyz center = idx" and "has_shape3 B G M idx"
    and "list_all (list_all (list_all (\<lambda>i. i < N))) idx"
    and "list_all (list_all (in_range 126)) xyz" and "list_all (list_all (in_range 126)) center"
  shows "\<exists>nb. Group_forward G M fps knn_point xyz = Inr (nb, center)
           \<and> has_shape3 B G M nb
           \<and> (\<forall>b<B. \<forall>g<G. \<forall>m<M.
                 nb ! b ! g ! m = psub (xyz ! b ! (idx ! b ! g ! m)) (center ! b ! g))"
  using Group_forward_result[where fps = fps and knn_point = knn_point, OF assms(1-9)] .

text \<open>The theorem at one cloud of two points, one group of size two.\<close>

theorem group_forward_centered_witness:
  "\<exists>nb. Group_forward 1 2 (\<lambda>_ _. [[(1, 2, 3)]]) (\<lambda>_ _ _. [[[1, 0]]]) [[(0, 0, 0), (1, 2, 3)]]
           = Inr (nb, [[(1, 2, 3)]])
     \<and> has_shape3 1 1 2 nb
     \<and> nb ! 0 ! 0 ! 0 = psub (1, 2, 3) (1, 2, 3)
     \<and> nb ! 0 ! 0 ! 1 = psub (0, 0, 0) (1, 2, 3)"
proof -
  have h: "has_shape2 1 2 [[(0, 0, 0), (1, 2, 3 :: real)] :: point list]"
    "has_shape2 1 1 [[(1, 2, 3)] :: point list]"
    "has_shape3 1 1 2 [[[1, 0 :: nat]]]"
    "list_all (list_all (list_all (\<lambda>i. i < 2))) [[[1, 0 :: nat]]]"
    "list_all (list_all (in_range 126)) [[(0, 0, 0), (1, 2, 3)]]"
    "list_all (list_all (in_range 126)) [[(1, 2, 3)]]"
    by (simp_all add: has_shape2_def has_shape3_def in_range_def)
  obtain nb where nb:
    "Group_forward 1 2 (\<lambda>_ _. [[(1, 2, 3)]]) (\<lambda>_ _ _. [[[1, 0]]]) [[(0, 0, 0), (1, 2, 3)]]
       = Inr (nb, [[(1, 2, 3)]])"
    "has_shape3 1 1 2 nb"
    "\<forall>b<1. \<forall>g<1. \<forall>m<2. nb ! b ! g ! m
        = psub ([[(0, 0, 0), (1, 2, 3)]] ! b ! ([[[1, 0]]] ! b ! g ! m)) ([[(1, 2, 3)]] ! b ! g)"
    using group_forward_centered [of 1 1 2 "[[(0, 0, 0), (1, 2, 3)]]" "\<lambda>_ _. [[(1, 2, 3)]]"
        "[[(1, 2, 3)]]" "\<lambda>_ _ _. [[[1, 0]]]" 2 "[[[1, 0]]]", OF _ _ _ h(1) _ h(2) _ h(3) h(4) h(5) h(6)]
    by auto
  have "nb ! 0 ! 0 ! 0 = psub (1, 2, 3) (1, 2, 3)"
    using nb(3)[rule_format, of 0 0 0] by simp
  moreover have "nb ! 0 ! 0 ! 1 = psub (0, 0, 0) (1, 2, 3)"
    using nb(3)[rule_format, of 0 0 1] by simp
  ultimately show ?thesis using nb(1,2) by blast
qed

text \<open>
  Claim C2 as stated fails: the reconstruction is not exact. The \<^verbatim>\<open>float32\<close> number
  nearest to 0.1 is \<open>13421773 / 134217728\<close>; for the cloud of the two points
  \<open>(1, 1, 1)\<close>, the center, and the point with that number in each coordinate, the
  centered point has the coordinate \<open>- (7549747 / 8388608)\<close>, and adding the center back
  gives \<open>838861 / 8388608\<close>, about 0.10000002, not the coordinate of the input.
\<close>

lemma float32_sub_example: "float32 (- (120795955 / 134217728)) = - (7549747 / 8388608)"
proof -
  have "float32 (120795955 / 134217728) = 7549747 / 8388608"
    unfolding float32_def by (subst fround_up[where u = 24]) (simp_all add: round_even_def)
  then show ?thesis by (simp add: float32_def fround_minus)
qed

lemma float32_add_example: "float32 (838861 / 8388608) = 838861 / 8388608"
  unfolding float32_def by (subst fround_up[where u = 27]) (simp_all add: round_even_def)

theorem group_forward_inexact_counterexample:
  "Group_forward 1 2 (\<lambda>_ _. [[(1, 1, 1)]]) (\<lambda>_ _ _. [[[0, 1]]])
      [[(1, 1, 1), (13421773 / 134217728, 13421773 / 134217728, 13421773 / 134217728)]]
    = Inr ([[[(0, 0, 0), (- (7549747 / 8388608), - (7549747 / 8388608), - (7549747 / 8388608))]]],
           [[(1, 1, 1)]])
   \<and> padd (- (7549747 / 8388608), - (7549747 / 8388608), - (7549747 / 8388608)) (1, 1, 1)
       = (838861 / 8388608, 838861 / 8388608, 838861 / 8388608)
   \<and> (838861 / 8388608 :: real) \<noteq> 13421773 / 134217728"
  by (simp add: Group_forward_def dim1_def dim2_def bdim_def bnth_def Let_def psub_def padd_def
      float32_0 float32_sub_example float32_add_example
      upt_rec[of 0] upt_rec[of 1] upt_rec[of "Suc 0"] numeral_2_eq_2)

section \<open>Properties of the \<^verbatim>\<open>Encoder\<close>\<close>
















text \<open>
  The normalisation of evaluation mode applies the same function whatever the tensor,
  and the mean and the variance of the batch in exact arithmetic do not depend on the
  order of the points.
\<close>

lemma eval_order_free: "bn_order_free (\<lambda>x. Inr f)"
  by (simp add: bn_order_free_def)



section \<open>Properties of \<^verbatim>\<open>Block.forward\<close>\<close>

lemma map2_append_Nil: "length x = B \<Longrightarrow> map2 (@) x (replicate B []) = x"
proof (induction x arbitrary: B)
  case Nil
  then show ?case by simp
next
  case (Cons a x)
  then obtain B' where "B = Suc B'" by (cases B) auto
  then show ?case using Cons by simp
qed

lemma dim1_map_map: "dim1 (map (map f) x) = dim1 x"
  by (cases x) (simp_all add: dim1_def)

lemma has_shape2_map_map: "has_shape2 B N x \<Longrightarrow> has_shape2 B N (map (map f) x)"
  by (simp add: has_shape2_def list_all_length)

lemma attention_empty_y:
  assumes "has_shape2 B N x"
  shows "fst (Attention_forward_y A x (replicate B [])) = Attention_forward A x"
proof -
  have len: "length x = B" using assms by (simp add: has_shape2_def)
  have cat: "map2 (@) x (replicate B []) = x" using len by (rule map2_append_Nil)
  have tk: "take (dim1 x) (map (Linear_forward (qkv A)) xs) = map (Linear_forward (qkv A)) xs"
    if "xs \<in> set x" for xs
  proof -
    have "0 < B" using that len by (cases x) auto
    then have "dim1 x = N" using assms by (rule has_shape2_dim1[rotated])
    moreover have "length xs = N" using assms that by (simp add: has_shape2_def list_all_iff)
    ultimately show ?thesis by simp
  qed
  show ?thesis
    unfolding Attention_forward_y_def Attention_forward_def Let_def fst_conv cat map_map comp_def
    by (rule map_cong) (simp_all add: tk)
qed

text \<open>
  Claim C3. For every batch \<open>x\<close> of \<open>B\<close> sequences of \<open>N\<close> tokens, the joint block
  called with a \<open>y\<close> of sequence length 0 returns for \<open>x\<close> what the branch
  \<^verbatim>\<open>y is None\<close> of the same block returns on \<open>x\<close>, the two \<^verbatim>\<open>drop_path\<close> calls on
  the \<open>x\<close> path (calls 0 and 2 of the joint branch) drawing the same factors.
\<close>

theorem block_empty_y_equals_self:
  assumes "has_shape2 B N x"
  shows "fst (Block_forward_y P rs x (replicate B [])) = Block_forward P (\<lambda>k. rs (2 * k)) x"
proof -
  have s: "has_shape2 B N (map (map (LayerNorm_forward (norm1 P))) x)"
    using assms by (rule has_shape2_map_map)
  have y: "map (map (LayerNorm_forward (norm1 P))) (replicate B []) = replicate B []"
    by simp
  show ?thesis
    unfolding Block_forward_y_def Block_forward_def Let_def fst_conv y
      attention_empty_y[OF s]
    by simp
qed

text \<open>An instance: one sequence of two tokens of width 2, one attention head.\<close>

theorem block_empty_y_equals_self_witness:
  "has_shape2 1 2 [[[1, 2], [3, 5::real]]] \<and>
   fst (Block_forward_y
          \<lparr>norm1 = \<lparr>ln_weight = [1, 1], ln_bias = [0, 0], ln_eps = 1 / 100000\<rparr>,
           norm2 = \<lparr>ln_weight = [1, 1], ln_bias = [0, 0], ln_eps = 1 / 100000\<rparr>,
           mlp = \<lparr>fc1 = \<lparr>weight = [[1, 0], [0, 1]], bias = Some [0, 0]\<rparr>,
                  act = (\<lambda>v. max 0 v),
                  fc2 = \<lparr>weight = [[1, 0], [0, 1]], bias = Some [0, 0]\<rparr>\<rparr>,
           attn = \<lparr>num_heads = 1, scale = 1,
                   qkv = \<lparr>weight = [[1, 0], [0, 1], [1, 0], [0, 1], [1, 0], [0, 1]], bias = None\<rparr>,
                   proj = \<lparr>weight = [[1, 0], [0, 1]], bias = Some [0, 0]\<rparr>\<rparr>\<rparr>
          (\<lambda>k b. 1) [[[1, 2], [3, 5]]] (replicate 1 []))
   = Block_forward
          \<lparr>norm1 = \<lparr>ln_weight = [1, 1], ln_bias = [0, 0], ln_eps = 1 / 100000\<rparr>,
           norm2 = \<lparr>ln_weight = [1, 1], ln_bias = [0, 0], ln_eps = 1 / 100000\<rparr>,
           mlp = \<lparr>fc1 = \<lparr>weight = [[1, 0], [0, 1]], bias = Some [0, 0]\<rparr>,
                  act = (\<lambda>v. max 0 v),
                  fc2 = \<lparr>weight = [[1, 0], [0, 1]], bias = Some [0, 0]\<rparr>\<rparr>,
           attn = \<lparr>num_heads = 1, scale = 1,
                   qkv = \<lparr>weight = [[1, 0], [0, 1], [1, 0], [0, 1], [1, 0], [0, 1]], bias = None\<rparr>,
                   proj = \<lparr>weight = [[1, 0], [0, 1]], bias = Some [0, 0]\<rparr>\<rparr>\<rparr>
          (\<lambda>k. (\<lambda>k b. 1) (2 * k)) [[[1, 2], [3, 5]]]"
  using block_empty_y_equals_self[of 1 2 "[[[1, 2], [3, 5::real]]]"]
  by (simp add: has_shape2_def)

section \<open>Properties of \<^verbatim>\<open>proj2img\<close>\<close>

text \<open>
  A sample whose points all have the same \<open>x\<close> and the same \<open>y\<close> has grid size 0: its
  indices are \<^verbatim>\<open>0/0\<close>, not numbers, and the \<^verbatim>\<open>assert\<close> of line 629 fails.
\<close>

lemma grid_size_zero_fails:
  assumes "pc \<noteq> []" "0 < dim1 pc" "p \<in> set pc" "p \<noteq> []" "grid_size p = 0"
  shows "proj2img pc = Inl AssertionError"
proof -
  obtain x y z ps where p: "p = (x, y, z) # ps" using assms(4) by (cases p) auto
  have "\<not> list_all (\<lambda>(i, j). idx_ok i \<and> idx_ok j) (idx_xy_dense_offset p)"
    using assms(5)
    by (simp add: p idx_xy_dense_offset_def idx_xy_dense_def idx_xy_def fdiv_def ffloor_def
        fadd_def shift_idx_def idx_ok_def img_offset_def)
  then have "\<not> list_all (\<lambda>p. list_all (\<lambda>(i, j). idx_ok i \<and> idx_ok j) (idx_xy_dense_offset p)) pc"
    using assms(3) by (auto simp: list_all_iff)
  then show ?thesis using assms(1,2) by (simp add: proj2img_def proj2img_res_def Let_def)
qed

text \<open>
  Claim C5 says that \<^verbatim>\<open>proj2img\<close> returns a fully defined raster for every non-empty
  cloud of any point count. For a cloud of one point it returns nothing: the
  \<^verbatim>\<open>assert\<close> fails.
\<close>

theorem proj2img_single_point_fails:
  "proj2img [[(1 / 2, 1 / 4, 1)]] = Inl AssertionError"
  by (rule grid_size_zero_fails[where p = "[(1 / 2, 1 / 4, 1)]"])
     (simp_all add: dim1_def grid_size_def pc_range_def float32_0)

text \<open>
  Claim C6 says that the pixel values are finite also when all points are identical.
  For two identical points there are no pixel values: the \<^verbatim>\<open>assert\<close> fails.
\<close>

theorem proj2img_identical_points_fails:
  "proj2img [[(1, 2, 3), (1, 2, 3)]] = Inl AssertionError"
  by (rule grid_size_zero_fails[where p = "[(1, 2, 3), (1, 2, 3)]"])
     (simp_all add: dim1_def grid_size_def pc_range_def float32_0)

text \<open>
  Claim C7 says that the bounds \<^verbatim>\<open>assert\<close> fails for no input. It fails for a batch
  in which one sample has two points above each other (same \<open>x\<close> and \<open>y\<close>, different
  \<open>z\<close>).
\<close>

theorem proj2img_assertion_fails:
  "proj2img [[(0, 0, 1), (0, 0, 2)], [(0, 0, 0), (1, 1, 1)]] = Inl AssertionError"
  by (rule grid_size_zero_fails[where p = "[(0, 0, 1), (0, 0, 2)]"])
     (simp_all add: dim1_def grid_size_def pc_range_def float32_0)

section \<open>Properties of the construction\<close>

text \<open>
  Claim C8. For every loss name other than \<^verbatim>\<open>"cdl1"\<close> and \<^verbatim>\<open>"cdl2"\<close>,
  \<^verbatim>\<open>build_loss_func\<close> raises \<^verbatim>\<open>NotImplementedError\<close>, and so does the constructor when
  it reaches the call; whatever the other statements of the constructor do, it returns
  no object, so that no \<^verbatim>\<open>forward\<close> can be called. For \<^verbatim>\<open>"cdl1"\<close> the module stored is
  \<^verbatim>\<open>ChamferDistanceL1\<close>, for \<^verbatim>\<open>"cdl2"\<close> it is \<^verbatim>\<open>ChamferDistanceL2\<close>.
\<close>

theorem unsupported_loss_fails_at_construction:
  "(name \<noteq> ''cdl1'' \<and> name \<noteq> ''cdl2'' \<longrightarrow>
      build_loss_func name = Inl NotImplementedError
      \<and> PCP_MAE_init None after name = Inl NotImplementedError
      \<and> (\<exists>e. PCP_MAE_init before after name = Inl e))
   \<and> build_loss_func ''cdl1'' = Inr ChamferDistanceL1
   \<and> build_loss_func ''cdl2'' = Inr ChamferDistanceL2
   \<and> PCP_MAE_init None None ''cdl1'' = Inr \<lparr>loss = ''cdl1'', loss_func = ChamferDistanceL1\<rparr>
   \<and> PCP_MAE_init None None ''cdl2'' = Inr \<lparr>loss = ''cdl2'', loss_func = ChamferDistanceL2\<rparr>"
  by (cases before) (simp_all add: build_loss_func_def PCP_MAE_init_def)

text \<open>The theorem at the name \<^verbatim>\<open>"emd"\<close>, the loss of the line commented out.\<close>

theorem unsupported_loss_fails_at_construction_witness:
  "build_loss_func ''emd'' = Inl NotImplementedError
   \<and> PCP_MAE_init None None ''emd'' = Inl NotImplementedError
   \<and> (\<exists>e. PCP_MAE_init (Some RuntimeError) None ''emd'' = Inl e)"
  using unsupported_loss_fails_at_construction [of "''emd''" None "Some RuntimeError"]
    unsupported_loss_fails_at_construction [of "''emd''" None None]
  by simp

end
